theory Spec2Isabelle
  imports Complex_Main "HOL-Library.Word" "HOL-Library.Sublist"
begin

section \<open>Strings and the regular expressions of the routes\<close>

text \<open>
  JavaScript strings are modelled as \<open>string\<close>. The routes use only three kinds of
  tests on entry names and file contents: \<open>s.includes(p)\<close> and a regular expression
  without anchors (both: \<open>p\<close> occurs somewhere in \<open>s\<close>), a regular expression
  \<open>/\.(a|b|c)$/\<close> (the name ends with a dot and one of the alternatives; without the
  \<open>m\<close> flag \<open>$\<close> matches at the very end of the input only), and the flag \<open>i\<close>,
  which for an ASCII pattern in a non-unicode regular expression folds exactly the
  letters A-Z and a-z.
\<close>

type_synonym bytes = "8 word list"

definition toLowerCase_char :: "char \<Rightarrow> char" where
  "toLowerCase_char c =
     (case map_of (zip ''ABCDEFGHIJKLMNOPQRSTUVWXYZ'' ''abcdefghijklmnopqrstuvwxyz'') c of
        Some l \<Rightarrow> l
      | None \<Rightarrow> c)"

definition toLowerCase :: "string \<Rightarrow> string" where
  "toLowerCase s = map toLowerCase_char s"

text \<open>\<open>s.includes(p)\<close>, and \<open>/p/.test(s)\<close> for a literal pattern \<open>p\<close>.\<close>

definition str_includes :: "string \<Rightarrow> string \<Rightarrow> bool" where
  "str_includes s p = sublist p s"

text \<open>\<open>/p/i.test(s)\<close> for a literal ASCII pattern \<open>p\<close>.\<close>

definition str_includes_i :: "string \<Rightarrow> string \<Rightarrow> bool" where
  "str_includes_i s p = sublist (toLowerCase p) (toLowerCase s)"

text \<open>\<open>/\.(e1|e2|...)$/.test(s)\<close>: case-sensitive suffix alternatives.\<close>

definition ends_with_ext :: "string list \<Rightarrow> string \<Rightarrow> bool" where
  "ends_with_ext exts s = list_ex (\<lambda>e. suffix (CHR ''.'' # e) s) exts"

text \<open>\<open>/\.(e1|e2|...)$/i.test(s)\<close>: the same with the flag \<open>i\<close>.\<close>

definition ends_with_ext_i :: "string list \<Rightarrow> string \<Rightarrow> bool" where
  "ends_with_ext_i exts s =
     list_ex (\<lambda>e. suffix (toLowerCase (CHR ''.'' # e)) (toLowerCase s)) exts"

text \<open>\<open>xs.join(sep)\<close>.\<close>

fun join :: "string \<Rightarrow> string list \<Rightarrow> string" where
  "join sep [] = []"
| "join sep [x] = x"
| "join sep (x # y # ys) = x @ sep @ join sep (y # ys)"

text \<open>\<open>name.split('.').pop()\<close>: what follows the last dot, the whole name without one.\<close>

definition split_dot_pop :: "string \<Rightarrow> string" where
  "split_dot_pop s = rev (takeWhile (\<lambda>c. c \<noteq> CHR ''.'') (rev s))"

text \<open>
  Decimal rendering of a number inside a template string; \<open>digit_char\<close> is applied
  to the digits 0 to 9 only.
\<close>

definition digit_char :: "nat \<Rightarrow> char" where
  "digit_char d = ''0123456789'' ! d"

fun show_nat :: "nat \<Rightarrow> string" where
  "show_nat n = (if n < 10 then [digit_char n] else show_nat (n div 10) @ [digit_char (n mod 10)])"

declare show_nat.simps [simp del]

text \<open>JavaScript truthiness of a request field that is a string when present.\<close>

definition falsy :: "string option \<Rightarrow> bool" where
  "falsy v = (case v of None \<Rightarrow> True | Some s \<Rightarrow> s = [])"

section \<open>Archives as JSZip presents them\<close>

text \<open>
  \<open>JSZip.loadAsync\<close> is an external library: its result is data of the model. An archive
  is the list of its entries in the order of \<open>Object.keys(zip.files)\<close>; the keys of an
  object are distinct. Each entry carries what \<open>async('nodebuffer')\<close> and
  \<open>async('text')\<close> resolve to (\<open>Inl\<close> the message when the call rejects), and the
  uncompressed size its header declares, which no route reads.
\<close>

record zip_entry =
  entry_name :: string
  entry_dir :: bool
  uncompressed_size :: nat
  async_nodebuffer :: "string + bytes"
  async_text :: "string + string"

type_synonym zip = "zip_entry list"

definition zip_keys :: "zip \<Rightarrow> string list" where
  "zip_keys z = map entry_name z"

text \<open>\<open>zip.file(name)\<close>: the entry of that name unless it is a directory.\<close>

definition zip_file :: "zip \<Rightarrow> string \<Rightarrow> zip_entry option" where
  "zip_file z n =
     (case find (\<lambda>e. entry_name e = n) z of
        None \<Rightarrow> None
      | Some e \<Rightarrow> if entry_dir e then None else Some e)"

section \<open>Entropy (scan route, \<open>calculateEntropy\<close>)\<close>

text \<open>
  The source computes with IEEE doubles; the model computes with real numbers. The first
  loop counts the occurrences of every byte value in an array of 256 counters, the second
  loop subtracts \<open>p * log2 p\<close> for every counter that is positive.
\<close>

definition byteCounts :: "bytes \<Rightarrow> nat list" where
  "byteCounts buffer =
     fold (\<lambda>b counts. counts[unat b := counts ! unat b + 1]) buffer (replicate 256 0)"

definition calculateEntropy :: "bytes \<Rightarrow> real" where
  "calculateEntropy buffer =
     (let counts = byteCounts buffer;
          totalBytes = length buffer
      in fold (\<lambda>i entropy.
                 if counts ! i > 0
                 then (let probability = real (counts ! i) / real totalBytes
                       in entropy - probability * log 2 probability)
                 else entropy)
              [0..<256] 0)"

text \<open>
  The formula of the specification: \<open>H = - \<Sum> p(b) * log2 (p(b))\<close> over the 256 byte
  values, \<open>p(b)\<close> the relative frequency of \<open>b\<close> in the buffer.
\<close>

definition byte_probability :: "bytes \<Rightarrow> 8 word \<Rightarrow> real" where
  "byte_probability buffer b = real (count_list buffer b) / real (length buffer)"

definition shannon_entropy :: "bytes \<Rightarrow> real" where
  "shannon_entropy buffer =
     - (\<Sum>b\<in>(UNIV :: 8 word set). byte_probability buffer b * log 2 (byte_probability buffer b))"

section \<open>Engine results and the stored data\<close>

text \<open>
  The two shapes \<open>scanWithClamAV\<close> returns: the result of the library, and
  \<open>{ is_infected: false, error }\<close> from its catch block.
\<close>

datatype clamav_result =
    ClamScanned bool "string list"
  | ClamError string

fun is_infected :: "clamav_result \<Rightarrow> bool" where
  "is_infected (ClamScanned i vs) = i"
| "is_infected (ClamError msg) = False"

fun viruses :: "clamav_result \<Rightarrow> string list" where
  "viruses (ClamScanned i vs) = vs"
| "viruses (ClamError msg) = []"

text \<open>
  The result of \<open>scanWithVirusTotal\<close>: \<open>positives\<close> and \<open>total\<close> are present in
  all three shapes; \<open>vt_status\<close> is \<open>'not_found'\<close> on a 404, \<open>vt_engines\<close> the
  analysis results of a found file, \<open>vt_error\<close> the message of the catch block.
\<close>

record virustotal_result =
  positives :: nat
  total :: nat
  vt_status :: "string option"
  vt_engines :: "(string \<times> string) list option"
  vt_error :: "string option"

text \<open>The result of \<open>scanWithYARA\<close>; a match is represented by its \<open>rule\<close> name.\<close>

record yara_result =
  matches :: "string list"
  scanned :: bool
  yara_error :: "string option"

text \<open>
  The two shapes \<open>heuristicAnalysis\<close> returns:
  \<open>{ suspicious, reasons, entropy, file_count }\<close>, and \<open>{ suspicious: false, error }\<close>
  from its catch block.
\<close>

datatype heuristic_result =
    HeuristicReport bool "string list" real nat
  | HeuristicError string

fun suspicious :: "heuristic_result \<Rightarrow> bool" where
  "suspicious (HeuristicReport s rs e n) = s"
| "suspicious (HeuristicError msg) = False"

fun reasons :: "heuristic_result \<Rightarrow> string list" where
  "reasons (HeuristicReport s rs e n) = rs"
| "reasons (HeuristicError msg) = []"

fun heuristic_error :: "heuristic_result \<Rightarrow> string option" where
  "heuristic_error (HeuristicReport s rs e n) = None"
| "heuristic_error (HeuristicError msg) = Some msg"

text \<open>The object \<open>results\<close> of the scan route; \<open>null\<close> is \<open>None\<close>.\<close>

record scan_results =
  clamav :: "clamav_result option"
  virustotal :: "virustotal_result option"
  yara :: "yara_result option"
  heuristic :: "heuristic_result option"
  overall :: string

text \<open>
  A row of the table \<open>apps\<close>. The columns \<open>status\<close>, \<open>last_scan\<close>,
  \<open>scan_results\<close> and \<open>threats\<close> are written by the scan route only; \<open>None\<close> is a
  column no route has written yet.
\<close>

record app_row =
  app_id :: string
  app_name :: string
  version :: string
  app_type :: string
  entry_point :: string
  permissions :: "string list"
  description :: string
  author :: string
  license :: string
  icon_url :: "string option"
  screenshot_urls :: "string list"
  download_url :: string
  hash :: string
  app_size :: nat
  verified :: bool
  upload_date :: string
  downloads :: nat
  rating :: nat
  status :: "string option"
  last_scan :: "string option"
  row_scan_results :: "scan_results option"
  threats :: "string list option"

record threat_log =
  log_app_id :: string
  log_file_hash :: string
  log_threats :: "string list"
  log_scan_results :: scan_results
  detected_at :: string

record admin_notification =
  notification_type :: string
  notification_app_id :: string
  notification_threats :: "string list"
  created_at :: string
  priority :: string

record installation =
  inst_user_id :: string
  inst_app_id :: string
  installed_at :: string
  installation_path :: string
  inst_version :: string
  inst_status :: string
  inst_permissions :: "string list"
  data_path :: string

record shortcut =
  sc_user_id :: string
  sc_app_id :: string
  sc_name :: string
  sc_icon :: "string option"
  sc_exec :: string
  sc_type :: string
  sc_categories :: "string list"
  sc_created_at :: string

text \<open>
  Every call that leaves the process, in the order the routes make them. A route appends
  a call to the trace of the world when the call has returned.
\<close>

datatype effect =
    AppsSelectByHash string
  | AppsSelectById string
  | S3PutObject string
  | S3DeleteObject string
  | S3GetObject string
  | EntryAsync string
  | AppsInsert string
  | FetchScanWorker string
  | FetchUrl string
  | EngineRun string
  | AppsUpdateScan string bool string
  | ThreatLogsInsert string
  | AdminNotificationsInsert string
  | FsMkdir string
  | FsWriteFile string
  | ExecApktool string
  | FsReaddir string
  | Decompress string
  | ReadManifest string
  | InstallationsInsert string
  | FsCp string string
  | AppsUpdateDownloads string
  | ShortcutsInsert string

record world =
  s3 :: "(string \<times> bytes) list"
  apps :: "app_row list"
  threat_logs :: "threat_log list"
  admin_notifications :: "admin_notification list"
  installations :: "installation list"
  shortcuts :: "shortcut list"
  trace :: "effect list"

definition s3_put :: "string \<Rightarrow> bytes \<Rightarrow> (string \<times> bytes) list \<Rightarrow> (string \<times> bytes) list" where
  "s3_put k v store = (k, v) # filter (\<lambda>kv. fst kv \<noteq> k) store"

definition s3_delete :: "string \<Rightarrow> (string \<times> bytes) list \<Rightarrow> (string \<times> bytes) list" where
  "s3_delete k store = filter (\<lambda>kv. fst kv \<noteq> k) store"

definition logged :: "effect \<Rightarrow> world \<Rightarrow> world" where
  "logged e w = w\<lparr>trace := trace w @ [e]\<rparr>"

text \<open>\<open>.single()\<close> of the database client: the row when exactly one matches, else no data.\<close>

definition single :: "'a list \<Rightarrow> 'a option" where
  "single rows = (case rows of [r] \<Rightarrow> Some r | _ \<Rightarrow> None)"

text \<open>
  The fields the install route reads of the manifest it finds in the extracted package.
\<close>

record installed_manifest =
  im_permissions :: "string list option"
  im_entryPoint :: "string option"
  im_type :: "string option"
  im_categories :: "string list option"

text \<open>
  What the world outside the process answers. The database is taken to be reachable:
  a select or an update acts on the tables of the world. The calls that can throw inside
  a route's \<open>try\<close> block are decided by \<open>throws\<close> (\<open>Some\<close> the error's message); the
  hash function, the unzip library, the engines and the clock are parameters.
\<close>

record env =
  S3_BUCKET :: string
  sha256_hex :: "bytes \<Rightarrow> string"
  jszip_loadAsync :: "bytes \<Rightarrow> string + zip"
  throws :: "effect \<Rightarrow> string option"
  apps_insert_result :: "string + string"
  now_iso :: string
  now_ms :: nat
  fetch_buffer :: "string \<Rightarrow> string + bytes"
  clamav_scanFile :: "bytes \<Rightarrow> string + bool \<times> string list"
  virustotal_lookup :: "string \<Rightarrow> string + nat \<times> (string + nat \<times> (string \<times> string) list)"
  yara_scanBuffer :: "bytes \<Rightarrow> string + string list option"
  known_certs :: "string + string list"
  toFixed2 :: "real \<Rightarrow> string"
  read_manifest :: "string \<Rightarrow> installed_manifest option"
  installations_insert_result :: "string + string"

datatype body =
    ErrorBody string
  | MaliciousFilesBody string "string list"
  | UploadSuccessBody string string string "string option" string string
  | ScanMaliciousBody "string list" scan_results
  | ScanCleanBody scan_results
  | InstallSuccessBody string installation shortcut

datatype response = Response nat body

text \<open>\<open>error.message || dflt\<close> in a catch block.\<close>

definition message_or :: "string \<Rightarrow> string \<Rightarrow> string" where
  "message_or msg dflt = (if msg = [] then dflt else msg)"

definition s3_url :: "env \<Rightarrow> string \<Rightarrow> string" where
  "s3_url env key = ''https://'' @ S3_BUCKET env @ ''.s3.amazonaws.com/'' @ key"

section \<open>The upload route (intake)\<close>

record manifest =
  m_name :: string
  m_version :: string
  m_type :: string
  m_entryPoint :: string
  m_permissions :: "string list option"
  m_description :: string
  m_author :: string
  m_license :: string

record upload_file =
  file_name :: string
  file_type :: string
  file_bytes :: bytes

text \<open>
  The parsed form data: \<open>form_apk\<close> is \<open>formData.get('apk')\<close>, \<open>form_manifest\<close> the
  outcome of \<open>JSON.parse(formData.get('manifest'))\<close>: \<open>Inl\<close> the message of the
  SyntaxError, \<open>Inr None\<close> for \<open>null\<close>.
\<close>

record upload_request =
  form_apk :: "upload_file option"
  form_manifest :: "string + manifest option"

text \<open>
  The names bound in the module of the upload route: its imports and its top-level
  declarations. \<open>DeleteObjectCommand\<close> is no global of the runtime either: outside this
  list it is a ReferenceError where it is evaluated.
\<close>

definition upload_module_bindings :: "string list" where
  "upload_module_bindings =
     [''NextResponse'', ''createClient'', ''S3Client'', ''PutObjectCommand'', ''multer'',
      ''multerS3'', ''archiver'', ''crypto'', ''JSZip'', ''supabase'', ''s3Client'',
      ''upload'', ''POST'']"

text \<open>
  The three patterns of \<open>maliciousPatterns\<close>: \<open>/\.(exe|bat|sh|php|py|js)$/i\<close>,
  \<open>/__MACOSX/\<close> and \<open>/\.DS_Store/\<close>; \<open>some\<close> is their disjunction.
\<close>

definition maliciousPatterns :: "string \<Rightarrow> bool" where
  "maliciousPatterns filename =
     (ends_with_ext_i [''exe'', ''bat'', ''sh'', ''php'', ''py'', ''js''] filename
      \<or> str_includes filename ''__MACOSX''
      \<or> str_includes filename ''.DS_Store'')"

text \<open>The \<open>forEach\<close> over the keys pushes every name one of the patterns matches.\<close>

definition maliciousFiles :: "zip \<Rightarrow> string list" where
  "maliciousFiles zipContents = filter maliciousPatterns (zip_keys zipContents)"

definition icon_file :: "zip \<Rightarrow> zip_entry option" where
  "icon_file zipContents =
     (case zip_file zipContents ''icon.png'' of
        Some f \<Rightarrow> Some f
      | None \<Rightarrow>
          (case zip_file zipContents ''assets/icon.png'' of
             Some f \<Rightarrow> Some f
           | None \<Rightarrow> zip_file zipContents ''res/drawable/icon.png''))"

text \<open>
  The steps of the route return \<open>Inl\<close> the message of the error thrown, with the world
  as it is at the throw, or \<open>Inr\<close> their value.
\<close>

definition store_icon :: "env \<Rightarrow> string \<Rightarrow> zip \<Rightarrow> world \<Rightarrow> (string + string option) \<times> world" where
  "store_icon env fileHash zipContents w =
     (case icon_file zipContents of
        None \<Rightarrow> (Inr None, w)
      | Some iconFile \<Rightarrow>
          (case async_nodebuffer iconFile of
             Inl msg \<Rightarrow> (Inl msg, w)
           | Inr iconBuffer \<Rightarrow>
               (let iconKey = ''icons/'' @ fileHash @ ''.png'';
                    w1 = logged (EntryAsync (entry_name iconFile)) w
                in case throws env (S3PutObject iconKey) of
                     Some msg \<Rightarrow> (Inl msg, w1)
                   | None \<Rightarrow>
                       (Inr (Some (s3_url env iconKey)),
                        logged (S3PutObject iconKey)
                          (w1\<lparr>s3 := s3_put iconKey iconBuffer (s3 w1)\<rparr>)))))"

definition screenshotFiles :: "zip \<Rightarrow> string list" where
  "screenshotFiles zipContents =
     filter (\<lambda>name. str_includes name ''screenshot''
                     \<and> ends_with_ext_i [''png'', ''jpg'', ''jpeg''] name)
            (zip_keys zipContents)"

text \<open>The body of the \<open>for\<close> loop over the screenshots, from index \<open>i\<close> on.\<close>

fun store_screenshots ::
  "env \<Rightarrow> string \<Rightarrow> zip \<Rightarrow> string list \<Rightarrow> nat \<Rightarrow> string list \<Rightarrow> world
     \<Rightarrow> (string + string list) \<times> world" where
  "store_screenshots env fileHash zipContents [] i screenshotUrls w = (Inr screenshotUrls, w)"
| "store_screenshots env fileHash zipContents (n # ns) i screenshotUrls w =
     (case zip_file zipContents n of
        None \<Rightarrow> store_screenshots env fileHash zipContents ns (i + 1) screenshotUrls w
      | Some screenshotFile \<Rightarrow>
          (case async_nodebuffer screenshotFile of
             Inl msg \<Rightarrow> (Inl msg, w)
           | Inr screenshotBuffer \<Rightarrow>
               (let screenshotKey = ''screenshots/'' @ fileHash @ ''_'' @ show_nat i @ ''.png'';
                    w1 = logged (EntryAsync n) w
                in case throws env (S3PutObject screenshotKey) of
                     Some msg \<Rightarrow> (Inl msg, w1)
                   | None \<Rightarrow>
                       store_screenshots env fileHash zipContents ns (i + 1)
                         (screenshotUrls @ [s3_url env screenshotKey])
                         (logged (S3PutObject screenshotKey)
                            (w1\<lparr>s3 := s3_put screenshotKey screenshotBuffer (s3 w1)\<rparr>)))))"

text \<open>
  The insert into \<open>apps\<close> and the scan trigger. The inserted object has no \<open>status\<close>;
  \<open>'uploaded'\<close> appears in the response only.
\<close>

definition new_app_row ::
  "env \<Rightarrow> upload_file \<Rightarrow> manifest \<Rightarrow> string \<Rightarrow> string \<Rightarrow> string option \<Rightarrow> string list
     \<Rightarrow> string \<Rightarrow> app_row" where
  "new_app_row env file manifest fileHash s3Key iconUrl screenshotUrls new_id =
     \<lparr> app_id = new_id,
       app_name = m_name manifest,
       version = m_version manifest,
       app_type = m_type manifest,
       entry_point = m_entryPoint manifest,
       permissions = (case m_permissions manifest of Some ps \<Rightarrow> ps | None \<Rightarrow> []),
       description = m_description manifest,
       author = m_author manifest,
       license = m_license manifest,
       icon_url = iconUrl,
       screenshot_urls = screenshotUrls,
       download_url = s3_url env s3Key,
       hash = fileHash,
       app_size = length (file_bytes file),
       verified = False,
       upload_date = now_iso env,
       downloads = 0,
       rating = 0,
       status = None,
       last_scan = None,
       row_scan_results = None,
       threats = None \<rparr>"

definition upload_fail :: "string \<Rightarrow> world \<Rightarrow> response \<times> world" where
  "upload_fail msg w = (Response 500 (ErrorBody (message_or msg ''Upload failed'')), w)"

definition upload_insert ::
  "env \<Rightarrow> upload_file \<Rightarrow> manifest \<Rightarrow> string \<Rightarrow> string \<Rightarrow> string option \<Rightarrow> string list
     \<Rightarrow> world \<Rightarrow> response \<times> world" where
  "upload_insert env file manifest fileHash s3Key iconUrl screenshotUrls w =
     (case apps_insert_result env of
        Inl msg \<Rightarrow> upload_fail msg w
      | Inr new_id \<Rightarrow>
          (let app = new_app_row env file manifest fileHash s3Key iconUrl screenshotUrls new_id;
               w1 = logged (AppsInsert new_id) (w\<lparr>apps := apps w @ [app]\<rparr>)
           in case throws env (FetchScanWorker new_id) of
                Some msg \<Rightarrow> upload_fail msg w1
              | None \<Rightarrow>
                  (Response 200
                     (UploadSuccessBody (app_id app) (app_name app) (version app) (icon_url app)
                        (description app) ''uploaded''),
                   logged (FetchScanWorker new_id) w1)))"

text \<open>Lines 133 to 229: preview images, record, scan trigger.\<close>

definition upload_accept ::
  "env \<Rightarrow> upload_file \<Rightarrow> manifest \<Rightarrow> string \<Rightarrow> string \<Rightarrow> zip \<Rightarrow> world \<Rightarrow> response \<times> world" where
  "upload_accept env file manifest fileHash s3Key zipContents w =
     (case store_icon env fileHash zipContents w of
        (Inl msg, w1) \<Rightarrow> upload_fail msg w1
      | (Inr iconUrl, w1) \<Rightarrow>
          (let files = screenshotFiles zipContents
           in case store_screenshots env fileHash zipContents
                     (take (min (length files) 5) files) 0 [] w1 of
                (Inl msg, w2) \<Rightarrow> upload_fail msg w2
              | (Inr screenshotUrls, w2) \<Rightarrow>
                  upload_insert env file manifest fileHash s3Key iconUrl screenshotUrls w2))"

text \<open>
  Lines 99 to 131: the archive is opened and its names are checked; the raw bytes are
  in S3 under \<open>s3Key\<close> already. \<open>DeleteObjectCommand\<close> is evaluated in the branch
  of the malicious files.
\<close>

definition upload_inspect ::
  "env \<Rightarrow> upload_file \<Rightarrow> manifest \<Rightarrow> string \<Rightarrow> string \<Rightarrow> world \<Rightarrow> response \<times> world" where
  "upload_inspect env file manifest fileHash s3Key w =
     (case jszip_loadAsync env (file_bytes file) of
        Inl msg \<Rightarrow> upload_fail msg w
      | Inr zipContents \<Rightarrow>
          if length (maliciousFiles zipContents) > 0
          then (if ''DeleteObjectCommand'' \<in> set upload_module_bindings
                then (case throws env (S3DeleteObject s3Key) of
                        Some msg \<Rightarrow> upload_fail msg w
                      | None \<Rightarrow>
                          (Response 400
                             (MaliciousFilesBody ''Malicious files detected''
                                (maliciousFiles zipContents)),
                           logged (S3DeleteObject s3Key) (w\<lparr>s3 := s3_delete s3Key (s3 w)\<rparr>)))
                else upload_fail ''DeleteObjectCommand is not defined'' w)
          else upload_accept env file manifest fileHash s3Key zipContents w)"

text \<open>Lines 84 to 97: the raw bytes are put to S3 before the archive is opened.\<close>

definition upload_key :: "string \<Rightarrow> upload_file \<Rightarrow> string" where
  "upload_key fileHash file = ''apks/'' @ fileHash @ ''.'' @ split_dot_pop (file_name file)"

definition upload_store ::
  "env \<Rightarrow> upload_file \<Rightarrow> manifest \<Rightarrow> string \<Rightarrow> world \<Rightarrow> response \<times> world" where
  "upload_store env file manifest fileHash w =
     (let s3Key = upload_key fileHash file
      in case throws env (S3PutObject s3Key) of
           Some msg \<Rightarrow> upload_fail msg w
         | None \<Rightarrow>
             upload_inspect env file manifest fileHash s3Key
               (logged (S3PutObject s3Key) (w\<lparr>s3 := s3_put s3Key (file_bytes file) (s3 w)\<rparr>)))"

definition upload_POST :: "env \<Rightarrow> upload_request \<Rightarrow> world \<Rightarrow> response \<times> world" where
  "upload_POST env req w =
     (case form_manifest req of
        Inl msg \<Rightarrow> upload_fail msg w
      | Inr manifest \<Rightarrow>
          (case (form_apk req, manifest) of
             (Some file, Some m) \<Rightarrow>
               (let fileHash = sha256_hex env (file_bytes file);
                    existingApp = single (filter (\<lambda>r. hash r = fileHash) (apps w));
                    w0 = logged (AppsSelectByHash fileHash) w
                in if existingApp \<noteq> None
                   then (Response 409 (ErrorBody ''App already exists''), w0)
                   else upload_store env file m fileHash w0)
           | _ \<Rightarrow> (Response 400 (ErrorBody ''File and manifest required''), w)))"

section \<open>The scan route\<close>

subsection \<open>The heuristic analyzer\<close>

definition suspiciousFiles :: "string list \<Rightarrow> string list" where
  "suspiciousFiles files =
     filter (\<lambda>file.
        list_ex (str_includes_i file)
          [''malware'', ''virus'', ''exploit'', ''backdoor'', ''trojan'', ''rat'', ''keylogger'']
        \<or> (ends_with_ext_i [''so'', ''dex'', ''apk'', ''jar''] file \<and> str_includes file ''lib'')
        \<or> (str_includes file ''META-INF'' \<and> ends_with_ext [''RSA'', ''DSA'', ''SF''] file))
       files"

definition file_name_indicators :: "string list \<Rightarrow> string list" where
  "file_name_indicators files =
     (if length (suspiciousFiles files) > 0
      then [''Suspicious files: '' @ join '', '' (suspiciousFiles files)]
      else [])"

definition executable_indicators :: "string list \<Rightarrow> string list" where
  "executable_indicators files =
     map (\<lambda>file. ''Embedded executable: '' @ file)
       (filter (ends_with_ext_i [''exe'', ''dll'', ''bat'', ''sh'']) files)"

definition manifestFile :: "zip \<Rightarrow> zip_entry option" where
  "manifestFile archive =
     (case zip_file archive ''AndroidManifest.xml'' of
        Some f \<Rightarrow> Some f
      | None \<Rightarrow> zip_file archive ''manifest.json'')"

definition permission_names :: "string list" where
  "permission_names =
     [''READ_SMS'', ''SEND_SMS'', ''RECEIVE_SMS'', ''ACCESS_FINE_LOCATION'', ''RECORD_AUDIO'',
      ''CAMERA'', ''READ_CONTACTS'', ''READ_CALENDAR'']"

definition debuggable_flag :: string where
  "debuggable_flag = ''android:debuggable='' @ [CHR 0x22] @ ''true'' @ [CHR 0x22]"

definition manifest_indicators :: "zip \<Rightarrow> string + string list" where
  "manifest_indicators archive =
     (case manifestFile archive of
        None \<Rightarrow> Inr []
      | Some mf \<Rightarrow>
          (case async_text mf of
             Inl msg \<Rightarrow> Inl msg
           | Inr manifestContent \<Rightarrow>
               (let foundPermissions = filter (str_includes manifestContent) permission_names
                in Inr ((if length foundPermissions > 5
                         then [''Excessive permissions: '' @ join '', '' foundPermissions]
                         else [])
                        @ (if str_includes manifestContent debuggable_flag
                           then [''Debug mode enabled'']
                           else [])))))"

text \<open>Lines 263 to 267: the threshold on the entropy of the raw buffer.\<close>

definition entropy_indicators :: "env \<Rightarrow> bytes \<Rightarrow> string list" where
  "entropy_indicators env buffer =
     (let entropy = calculateEntropy buffer
      in if entropy > 7.5 then [''High entropy detected: '' @ toFixed2 env entropy] else [])"

definition certFile :: "zip \<Rightarrow> zip_entry option" where
  "certFile archive =
     (case zip_file archive ''META-INF/CERT.RSA'' of
        Some f \<Rightarrow> Some f
      | None \<Rightarrow> zip_file archive ''META-INF/CERT.DSA'')"

text \<open>
  \<open>known_certs.json\<close> is not among the sources: the list is a parameter, and
  \<open>Inl\<close> stands for a \<open>require\<close> that throws.
\<close>

definition certificate_indicators :: "env \<Rightarrow> zip \<Rightarrow> string + string list" where
  "certificate_indicators env archive =
     (case certFile archive of
        None \<Rightarrow> Inr []
      | Some cf \<Rightarrow>
          (case async_nodebuffer cf of
             Inl msg \<Rightarrow> Inl msg
           | Inr certBuffer \<Rightarrow>
               (let certHash = sha256_hex env certBuffer
                in case known_certs env of
                     Inl msg \<Rightarrow> Inl msg
                   | Inr knownBadCerts \<Rightarrow>
                       Inr (if certHash \<in> set knownBadCerts
                            then [''Known malicious certificate'']
                            else []))))"

definition heuristicAnalysis :: "env \<Rightarrow> bytes \<Rightarrow> heuristic_result" where
  "heuristicAnalysis env buffer =
     (case jszip_loadAsync env buffer of
        Inl msg \<Rightarrow> HeuristicError msg
      | Inr archive \<Rightarrow>
          (let files = zip_keys archive
           in case manifest_indicators archive of
                Inl msg \<Rightarrow> HeuristicError msg
              | Inr from_manifest \<Rightarrow>
                  (case certificate_indicators env archive of
                     Inl msg \<Rightarrow> HeuristicError msg
                   | Inr from_certificate \<Rightarrow>
                       (let suspiciousIndicators =
                              file_name_indicators files @ executable_indicators files
                              @ from_manifest @ entropy_indicators env buffer @ from_certificate
                        in HeuristicReport (length suspiciousIndicators > 0) suspiciousIndicators
                             (calculateEntropy buffer) (length files)))))"

subsection \<open>The remote engines\<close>

definition scanWithClamAV :: "env \<Rightarrow> bytes \<Rightarrow> clamav_result" where
  "scanWithClamAV env buffer =
     (case clamav_scanFile env buffer of
        Inl msg \<Rightarrow> ClamError msg
      | Inr (infected, names) \<Rightarrow> ClamScanned infected names)"

definition scanWithVirusTotal :: "env \<Rightarrow> string \<Rightarrow> virustotal_result" where
  "scanWithVirusTotal env fileHash =
     (case virustotal_lookup env fileHash of
        Inl msg \<Rightarrow>
          \<lparr>positives = 0, total = 0, vt_status = None, vt_engines = None, vt_error = Some msg\<rparr>
      | Inr (code, data) \<Rightarrow>
          if code = 404
          then \<lparr>positives = 0, total = 0, vt_status = Some ''not_found'', vt_engines = None,
                vt_error = None\<rparr>
          else (case data of
                  Inl msg \<Rightarrow>
                    \<lparr>positives = 0, total = 0, vt_status = None, vt_engines = None,
                     vt_error = Some msg\<rparr>
                | Inr (malicious, last_analysis_results) \<Rightarrow>
                    \<lparr>positives = malicious, total = length last_analysis_results,
                     vt_status = None, vt_engines = Some last_analysis_results,
                     vt_error = None\<rparr>))"

definition scanWithYARA :: "env \<Rightarrow> bytes \<Rightarrow> yara_result" where
  "scanWithYARA env buffer =
     (case yara_scanBuffer env buffer of
        Inl msg \<Rightarrow> \<lparr>matches = [], scanned = False, yara_error = Some msg\<rparr>
      | Inr rules \<Rightarrow>
          \<lparr>matches = (case rules of Some rs \<Rightarrow> rs | None \<Rightarrow> []), scanned = True,
           yara_error = None\<rparr>)"

subsection \<open>Aggregation and the update of the package\<close>

text \<open>An element of the array \<open>Promise.allSettled\<close> resolves to.\<close>

datatype 'a settled = Fulfilled 'a | Rejected string

text \<open>\<open>s.status === 'fulfilled' ? s.value : null\<close>\<close>

fun settled_value :: "'a settled \<Rightarrow> 'a option" where
  "settled_value (Fulfilled v) = Some v"
| "settled_value (Rejected reason) = None"

text \<open>Lines 65 to 71.\<close>

definition compile_results ::
  "clamav_result settled \<Rightarrow> virustotal_result settled \<Rightarrow> yara_result settled
     \<Rightarrow> heuristic_result settled \<Rightarrow> scan_results" where
  "compile_results r0 r1 r2 r3 =
     \<lparr>clamav = settled_value r0, virustotal = settled_value r1, yara = settled_value r2,
      heuristic = settled_value r3, overall = ''clean''\<rparr>"

text \<open>Lines 74 to 90: one threat string for every engine with a positive finding.\<close>

definition clamav_threats :: "scan_results \<Rightarrow> string list" where
  "clamav_threats results =
     (case clamav results of
        Some c \<Rightarrow> if is_infected c then [''ClamAV: '' @ join '', '' (viruses c)] else []
      | None \<Rightarrow> [])"

definition virustotal_threats :: "scan_results \<Rightarrow> string list" where
  "virustotal_threats results =
     (case virustotal results of
        Some v \<Rightarrow>
          if positives v > 0
          then [''VirusTotal: '' @ show_nat (positives v) @ ''/'' @ show_nat (total v)
                @ '' engines detected threats'']
          else []
      | None \<Rightarrow> [])"

definition yara_threats :: "scan_results \<Rightarrow> string list" where
  "yara_threats results =
     (case yara results of
        Some y \<Rightarrow> if length (matches y) > 0 then [''YARA: '' @ join '', '' (matches y)] else []
      | None \<Rightarrow> [])"

definition heuristic_threats :: "scan_results \<Rightarrow> string list" where
  "heuristic_threats results =
     (case heuristic results of
        Some h \<Rightarrow> if suspicious h then [''Heuristic: '' @ join '', '' (reasons h)] else []
      | None \<Rightarrow> [])"

definition collect_threats :: "scan_results \<Rightarrow> string list" where
  "collect_threats results =
     clamav_threats results @ virustotal_threats results @ yara_threats results
     @ heuristic_threats results"

text \<open>Line 93.\<close>

definition scan_status :: "string list \<Rightarrow> string" where
  "scan_status threat_list = (if length threat_list > 0 then ''malicious'' else ''clean'')"

text \<open>Lines 95 to 104: one update of every row whose id is \<open>appId\<close>.\<close>

definition update_scan :: "env \<Rightarrow> string \<Rightarrow> scan_results \<Rightarrow> string list \<Rightarrow> app_row \<Rightarrow> app_row" where
  "update_scan env appId results threat_list r =
     (if app_id r = appId
      then r\<lparr>verified := (scan_status threat_list = ''clean''),
             last_scan := Some (now_iso env),
             row_scan_results := Some results,
             threats := (if length threat_list > 0 then Some threat_list else None),
             status := Some (scan_status threat_list)\<rparr>
      else r)"

definition notifyAdmin :: "env \<Rightarrow> string \<Rightarrow> string list \<Rightarrow> world \<Rightarrow> world" where
  "notifyAdmin env appId threat_list w =
     logged (AdminNotificationsInsert appId)
       (w\<lparr>admin_notifications := admin_notifications w @
             [\<lparr>notification_type = ''malware_detected'', notification_app_id = appId,
               notification_threats = threat_list, created_at = now_iso env,
               priority = ''high''\<rparr>]\<rparr>)"

record scan_request =
  scan_appId :: "string option"
  scan_fileHash :: "string option"
  scan_url :: "string option"

text \<open>
  Lines 52 to 133, for a request with its three parameters. The four engine functions
  catch every error of their own, so each promise is fulfilled.
\<close>

definition scan_run :: "env \<Rightarrow> string \<Rightarrow> string \<Rightarrow> string \<Rightarrow> world \<Rightarrow> response \<times> world" where
  "scan_run env appId fileHash url w =
     (case fetch_buffer env url of
        Inl msg \<Rightarrow> (Response 500 (ErrorBody ''Scan failed''), w)
      | Inr buffer \<Rightarrow>
          (let w1 = logged (FetchUrl url) w;
               results = compile_results
                           (Fulfilled (scanWithClamAV env buffer))
                           (Fulfilled (scanWithVirusTotal env fileHash))
                           (Fulfilled (scanWithYARA env buffer))
                           (Fulfilled (heuristicAnalysis env buffer));
               w2 = fold logged
                      [EngineRun ''clamav'', EngineRun ''virustotal'', EngineRun ''yara'',
                       EngineRun ''heuristic''] w1;
               threat_list = collect_threats results;
               scan_state = scan_status threat_list;
               w3 = logged (AppsUpdateScan appId (scan_state = ''clean'') scan_state)
                      (w2\<lparr>apps := map (update_scan env appId results threat_list) (apps w2)\<rparr>)
           in if scan_state = ''malicious''
              then (let w4 = logged (ThreatLogsInsert appId)
                               (w3\<lparr>threat_logs := threat_logs w3 @
                                      [\<lparr>log_app_id = appId, log_file_hash = fileHash,
                                        log_threats = threat_list, log_scan_results = results,
                                        detected_at = now_iso env\<rparr>]\<rparr>)
                    in (Response 200 (ScanMaliciousBody threat_list results),
                        notifyAdmin env appId threat_list w4))
              else (Response 200 (ScanCleanBody results), w3)))"

definition scan_POST :: "env \<Rightarrow> scan_request \<Rightarrow> world \<Rightarrow> response \<times> world" where
  "scan_POST env req w =
     (if falsy (scan_appId req) \<or> falsy (scan_fileHash req) \<or> falsy (scan_url req)
      then (Response 400 (ErrorBody ''Missing parameters''), w)
      else (case (scan_appId req, scan_fileHash req, scan_url req) of
              (Some appId, Some fileHash, Some url) \<Rightarrow> scan_run env appId fileHash url w
            | _ \<Rightarrow> (Response 400 (ErrorBody ''Missing parameters''), w)))"

section \<open>The install route\<close>

text \<open>\<open>s.split(sep)[1]\<close> for a separator that is not empty; \<open>None\<close> is \<open>undefined\<close>.\<close>

fun drop_until :: "string \<Rightarrow> string \<Rightarrow> string option" where
  "drop_until sep [] = None"
| "drop_until sep (c # cs) =
     (if prefix sep (c # cs) then Some (drop (length sep) (c # cs)) else drop_until sep cs)"

fun take_until :: "string \<Rightarrow> string \<Rightarrow> string" where
  "take_until sep [] = []"
| "take_until sep (c # cs) = (if prefix sep (c # cs) then [] else c # take_until sep cs)"

definition split_second :: "string \<Rightarrow> string \<Rightarrow> string option" where
  "split_second sep s = map_option (take_until sep) (drop_until sep s)"

text \<open>
  \<open>GetObjectCommand\<close> and the reading of its stream: the client refuses a key that is
  \<open>undefined\<close>, the service answers an absent key with an error.
\<close>

definition s3_get :: "env \<Rightarrow> string option \<Rightarrow> world \<Rightarrow> string + string \<times> bytes" where
  "s3_get env s3Key w =
     (case s3Key of
        None \<Rightarrow> Inl ''No value provided for input HTTP label: Key.''
      | Some k \<Rightarrow>
          (case throws env (S3GetObject k) of
             Some msg \<Rightarrow> Inl msg
           | None \<Rightarrow>
               (case map_of (s3 w) k of
                  None \<Rightarrow> Inl ''The specified key does not exist.''
                | Some object_bytes \<Rightarrow> Inr (k, object_bytes))))"

text \<open>
  A sequence of calls to the file system or a child process: the first that throws ends
  it, \<open>Inl\<close> with the message and the world as the calls before left it.
\<close>

fun perform_all :: "env \<Rightarrow> effect list \<Rightarrow> world \<Rightarrow> string \<times> world + world" where
  "perform_all env [] w = Inr w"
| "perform_all env (e # es) w =
     (case throws env e of
        Some msg \<Rightarrow> Inl (msg, w)
      | None \<Rightarrow> perform_all env es (logged e w))"

definition install_fail :: "string \<Rightarrow> world \<Rightarrow> response \<times> world" where
  "install_fail msg w = (Response 500 (ErrorBody (''Installation failed: '' @ msg)), w)"

record install_request =
  install_appId :: "string option"
  install_userId :: "string option"

text \<open>
  Lines 58 to 193, for a package that passed the check of \<open>verified\<close>. The object
  \<open>runtimeConfig\<close> is written to \<open>runtime.json\<close>; its fields are not modelled.
\<close>

definition install_verified ::
  "env \<Rightarrow> string \<Rightarrow> string \<Rightarrow> app_row \<Rightarrow> world \<Rightarrow> response \<times> world" where
  "install_verified env appId userId app w =
     (case s3_get env (split_second ''.s3.amazonaws.com/'' (download_url app)) w of
        Inl msg \<Rightarrow> install_fail msg w
      | Inr (s3Key, buffer) \<Rightarrow>
          (let w1 = logged (S3GetObject s3Key) w;
               installDir = ''/tmp/fireos/apps/'' @ appId @ ''_'' @ show_nat (now_ms env);
               is_apk = suffix ''.apk'' (download_url app);
               manifestPath = installDir @ ''/''
                 @ (if is_apk then ''decompiled/AndroidManifest.xml'' else ''manifest.json'')
           in case perform_all env
                     (FsMkdir installDir
                      # (if is_apk
                         then [FsWriteFile (installDir @ ''/app.apk''),
                               ExecApktool (''apktool d '' @ installDir @ ''/app.apk -o ''
                                            @ installDir @ ''/decompiled''),
                               FsReaddir (installDir @ ''/decompiled'')]
                         else [Decompress installDir])) w1 of
                Inl (msg, w2) \<Rightarrow> install_fail msg w2
              | Inr w2 \<Rightarrow>
                  (case read_manifest env manifestPath of
                     None \<Rightarrow>
                       install_fail
                         (''Cannot read properties of null (reading '' @ [CHR 0x27]
                          @ ''permissions'' @ [CHR 0x27] @ '')'')
                         (logged (ReadManifest manifestPath) w2)
                   | Some manifest \<Rightarrow>
                       (case installations_insert_result env of
                          Inl msg \<Rightarrow> install_fail msg (logged (ReadManifest manifestPath) w2)
                        | Inr inst_id \<Rightarrow>
                            (let dataDir = ''/userdata/'' @ userId @ ''/apps/'' @ appId;
                                 inst = \<lparr>inst_user_id = userId, inst_app_id = appId,
                                         installed_at = now_iso env,
                                         installation_path = installDir,
                                         inst_version = version app,
                                         inst_status = ''installed'',
                                         inst_permissions =
                                           (case im_permissions manifest of
                                              Some ps \<Rightarrow> ps | None \<Rightarrow> []),
                                         data_path = dataDir\<rparr>;
                                 w3 = logged (InstallationsInsert inst_id)
                                        ((logged (ReadManifest manifestPath) w2)
                                           \<lparr>installations := installations w2 @ [inst]\<rparr>)
                             in case perform_all env
                                       [FsMkdir dataDir, FsCp installDir dataDir,
                                        FsWriteFile (dataDir @ ''/runtime.json'')] w3 of
                                  Inl (msg, w4) \<Rightarrow> install_fail msg w4
                                | Inr w4 \<Rightarrow>
                                    (let w5 = logged (AppsUpdateDownloads appId)
                                                (w4\<lparr>apps :=
                                                      map (\<lambda>r. if app_id r = appId
                                                                then r\<lparr>downloads := downloads app + 1\<rparr>
                                                                else r)
                                                        (apps w4)\<rparr>);
                                         sc = \<lparr>sc_user_id = userId, sc_app_id = appId,
                                               sc_name = app_name app, sc_icon = icon_url app,
                                               sc_exec = ''fireos://app/'' @ appId,
                                               sc_type = ''application'',
                                               sc_categories =
                                                 (case im_categories manifest of
                                                    Some cs \<Rightarrow> cs | None \<Rightarrow> [''Utility'']),
                                               sc_created_at = now_iso env\<rparr>;
                                         w6 = logged (ShortcutsInsert appId)
                                                (w5\<lparr>shortcuts := shortcuts w5 @ [sc]\<rparr>)
                                     in (Response 200 (InstallSuccessBody inst_id inst sc), w6)))))))"

text \<open>Lines 27 to 56: the parameters, the lookup of the package, the check of \<open>verified\<close>.\<close>

definition install_POST :: "env \<Rightarrow> install_request \<Rightarrow> world \<Rightarrow> response \<times> world" where
  "install_POST env req w =
     (if falsy (install_appId req) \<or> falsy (install_userId req)
      then (Response 400 (ErrorBody ''Missing parameters''), w)
      else (case (install_appId req, install_userId req) of
              (Some appId, Some userId) \<Rightarrow>
                (let w0 = logged (AppsSelectById appId) w
                 in case single (filter (\<lambda>r. app_id r = appId) (apps w)) of
                      None \<Rightarrow> (Response 404 (ErrorBody ''App not found''), w0)
                    | Some app \<Rightarrow>
                        if \<not> verified app
                        then (Response 403
                                (ErrorBody ''App not verified. Please wait for scanning to complete.''),
                              w0)
                        else install_verified env appId userId app w0)
            | _ \<Rightarrow> (Response 400 (ErrorBody ''Missing parameters''), w)))"

section \<open>Notions of the specification\<close>

text \<open>An engine reports a positive finding; an engine whose task failed reports none.\<close>

fun clamav_positive :: "clamav_result settled \<Rightarrow> bool" where
  "clamav_positive (Fulfilled c) = is_infected c"
| "clamav_positive (Rejected reason) = False"

fun virustotal_positive :: "virustotal_result settled \<Rightarrow> bool" where
  "virustotal_positive (Fulfilled v) = (positives v > 0)"
| "virustotal_positive (Rejected reason) = False"

fun yara_positive :: "yara_result settled \<Rightarrow> bool" where
  "yara_positive (Fulfilled y) = (matches y \<noteq> [])"
| "yara_positive (Rejected reason) = False"

fun heuristic_positive :: "heuristic_result settled \<Rightarrow> bool" where
  "heuristic_positive (Fulfilled h) = suspicious h"
| "heuristic_positive (Rejected reason) = False"

text \<open>
  The denylist as the specification words it: every pattern, the junk artifacts too,
  matched without regard to letter case.
\<close>

definition denylist_match_ci :: "string \<Rightarrow> bool" where
  "denylist_match_ci filename =
     (ends_with_ext_i [''exe'', ''bat'', ''sh'', ''php'', ''py'', ''js''] filename
      \<or> str_includes_i filename ''__MACOSX''
      \<or> str_includes_i filename ''.DS_Store'')"

text \<open>The content hash is a key of the packages.\<close>

definition hash_unique :: "world \<Rightarrow> bool" where
  "hash_unique w = distinct (map hash (apps w))"

text \<open>The invariant of the data model: \<open>verified == true\<close> implies \<open>status == "clean"\<close>.\<close>

definition verified_implies_clean :: "world \<Rightarrow> bool" where
  "verified_implies_clean w =
     list_all (\<lambda>r. \<not> verified r \<or> status r = Some ''clean'') (apps w)"

section \<open>Concrete inputs\<close>

text \<open>
  The byte strings below stand for three archives; what the unzip library makes of each
  is fixed by the environment. The digest of the environment is a stand-in for SHA-256:
  the bytes in hexadecimal, so that distinct contents have distinct digests.
\<close>

definition hex_of_bytes :: "bytes \<Rightarrow> string" where
  "hex_of_bytes bs =
     concat (map (\<lambda>b. [''0123456789abcdef'' ! (unat b div 16),
                        ''0123456789abcdef'' ! (unat b mod 16)]) bs)"

definition clean_bytes :: bytes where
  "clean_bytes = [0x50, 0x4B, 0x03, 0x04]"

definition payload_bytes :: bytes where
  "payload_bytes = [0x50, 0x4B, 0x05, 0x06]"

definition bomb_bytes :: bytes where
  "bomb_bytes = [0x50, 0x4B, 0x07, 0x08]"

definition all_bytes :: bytes where
  "all_bytes = map word_of_nat [0..<256]"

definition clean_zip :: zip where
  "clean_zip =
     [\<lparr>entry_name = ''manifest.json'', entry_dir = False, uncompressed_size = 2,
       async_nodebuffer = Inr [0x7B, 0x7D], async_text = Inr ''{}''\<rparr>,
      \<lparr>entry_name = ''index.html'', entry_dir = False, uncompressed_size = 4,
       async_nodebuffer = Inr [0x3C, 0x70, 0x3E, 0x0A], async_text = Inr ''<p>''\<rparr>]"

definition payload_zip :: zip where
  "payload_zip =
     [\<lparr>entry_name = ''manifest.json'', entry_dir = False, uncompressed_size = 2,
       async_nodebuffer = Inr [0x7B, 0x7D], async_text = Inr ''{}''\<rparr>,
      \<lparr>entry_name = ''payload.exe'', entry_dir = False, uncompressed_size = 2,
       async_nodebuffer = Inr [0x4D, 0x5A], async_text = Inr ''MZ''\<rparr>]"

text \<open>An archive one of whose headers declares an uncompressed size of one tebibyte.\<close>

definition bomb_zip :: zip where
  "bomb_zip =
     [\<lparr>entry_name = ''manifest.json'', entry_dir = False, uncompressed_size = 2,
       async_nodebuffer = Inr [0x7B, 0x7D], async_text = Inr ''{}''\<rparr>,
      \<lparr>entry_name = ''assets/data.bin'', entry_dir = False,
       uncompressed_size = 1099511627776,
       async_nodebuffer = Inl ''Bug : uncompressed data size mismatch'',
       async_text = Inl ''Bug : uncompressed data size mismatch''\<rparr>]"

text \<open>An archive with an entry whose name is the junk artifact in lower case.\<close>

definition junk_zip :: zip where
  "junk_zip =
     [\<lparr>entry_name = ''__macosx/._app'', entry_dir = False, uncompressed_size = 4,
       async_nodebuffer = Inr [0, 5, 22, 7], async_text = Inr []\<rparr>,
      \<lparr>entry_name = ''Setup.EXE'', entry_dir = False, uncompressed_size = 2,
       async_nodebuffer = Inr [0x4D, 0x5A], async_text = Inr ''MZ''\<rparr>]"

text \<open>An environment in which every call succeeds and every engine finds nothing.\<close>

definition env0 :: env where
  "env0 =
     \<lparr>S3_BUCKET = ''fireos-apps'',
      sha256_hex = hex_of_bytes,
      jszip_loadAsync =
        (\<lambda>b. if b = clean_bytes then Inr clean_zip
             else if b = payload_bytes then Inr payload_zip
             else if b = bomb_bytes then Inr bomb_zip
             else Inl ''Corrupted zip: missing end of central directory''),
      throws = (\<lambda>e. None),
      apps_insert_result = Inr ''app-1'',
      now_iso = ''2024-05-01T12:00:00.000Z'',
      now_ms = 1714564800000,
      fetch_buffer =
        (\<lambda>u. if u = ''https://fireos-apps.s3.amazonaws.com/apks/504b0304.zip''
             then Inr clean_bytes else Inl ''request failed''),
      clamav_scanFile = (\<lambda>b. Inr (False, [])),
      virustotal_lookup = (\<lambda>h. Inr (404, Inl ''not requested'')),
      yara_scanBuffer = (\<lambda>b. Inr (Some [])),
      known_certs = Inr [],
      toFixed2 = (\<lambda>x. ''8.00''),
      read_manifest = (\<lambda>p. Some \<lparr>im_permissions = None, im_entryPoint = None,
                                    im_type = None, im_categories = None\<rparr>),
      installations_insert_result = Inr ''inst-1''\<rparr>"

text \<open>The same environment with every engine out of reach.\<close>

definition offline_env :: env where
  "offline_env =
     env0\<lparr>jszip_loadAsync := (\<lambda>b. Inl ''Corrupted zip: missing end of central directory''),
          clamav_scanFile := (\<lambda>b. Inl ''connect ECONNREFUSED 127.0.0.1:3310''),
          virustotal_lookup := (\<lambda>h. Inl ''request timed out''),
          yara_scanBuffer := (\<lambda>b. Inl ''yara is not available'')\<rparr>"

text \<open>The environment \<open>env0\<close> with a signature scanner that finds a virus.\<close>

definition infected_env :: env where
  "infected_env = env0\<lparr>clamav_scanFile := (\<lambda>b. Inr (True, [''Win.Test.EICAR_HDB-1'']))\<rparr>"

text \<open>An environment whose unzip library opens the buffer of all byte values.\<close>

definition packed_env :: env where
  "packed_env = env0\<lparr>jszip_loadAsync := (\<lambda>b. Inr clean_zip)\<rparr>"

definition empty_world :: world where
  "empty_world =
     \<lparr>s3 = [], apps = [], threat_logs = [], admin_notifications = [], installations = [],
      shortcuts = [], trace = []\<rparr>"

definition demo_manifest :: manifest where
  "demo_manifest =
     \<lparr>m_name = ''Notes'', m_version = ''1.0.0'', m_type = ''webview'',
      m_entryPoint = ''index.html'', m_permissions = None, m_description = ''A notepad'',
      m_author = ''dev'', m_license = ''MIT''\<rparr>"

definition upload_of :: "bytes \<Rightarrow> upload_request" where
  "upload_of bs =
     \<lparr>form_apk = Some \<lparr>file_name = ''app.zip'', file_type = ''application/zip'',
                        file_bytes = bs\<rparr>,
      form_manifest = Inr (Some demo_manifest)\<rparr>"

text \<open>The world after the clean archive has been taken in, and the request to scan it.\<close>

definition uploaded_world :: world where
  "uploaded_world = snd (upload_POST env0 (upload_of clean_bytes) empty_world)"

definition scan_of_clean :: scan_request where
  "scan_of_clean =
     \<lparr>scan_appId = Some ''app-1'', scan_fileHash = Some ''504b0304'',
      scan_url = Some ''https://fireos-apps.s3.amazonaws.com/apks/504b0304.zip''\<rparr>"

definition install_of_clean :: install_request where
  "install_of_clean = \<lparr>install_appId = Some ''app-1'', install_userId = Some ''user-7''\<rparr>"

text \<open>The world after the scan of the clean archive.\<close>

definition scanned_world :: world where
  "scanned_world = snd (scan_POST env0 scan_of_clean uploaded_world)"

text \<open>The row the route inserts for the clean archive.\<close>

definition clean_row :: app_row where
  "clean_row =
     new_app_row env0
       \<lparr>file_name = ''app.zip'', file_type = ''application/zip'', file_bytes = clean_bytes\<rparr>
       demo_manifest ''504b0304'' ''apks/504b0304.zip'' None [] ''app-1''"

section \<open>Basic facts about the model\<close>

lemmas str_tests =
  ends_with_ext_i_def ends_with_ext_def str_includes_def str_includes_i_def toLowerCase_def
  toLowerCase_char_def sublist_code suffix_to_prefix

lemma logged_simps [simp]:
  "apps (logged e w) = apps w"
  "s3 (logged e w) = s3 w"
  "threat_logs (logged e w) = threat_logs w"
  "installations (logged e w) = installations w"
  "shortcuts (logged e w) = shortcuts w"
  "admin_notifications (logged e w) = admin_notifications w"
  "trace (logged e w) = trace w @ [e]"
  by (simp_all add: logged_def)

lemma new_app_row_simps [simp]:
  "hash (new_app_row env fl m h k icon urls i) = h"
  "verified (new_app_row env fl m h k icon urls i) = False"
  "status (new_app_row env fl m h k icon urls i) = None"
  "app_id (new_app_row env fl m h k icon urls i) = i"
  by (simp_all add: new_app_row_def)

lemma upload_fail_simps [simp]:
  "snd (upload_fail msg w) = w"
  "fst (upload_fail msg w) = Response 500 (ErrorBody (message_or msg ''Upload failed''))"
  by (simp_all add: upload_fail_def)

subsection \<open>What the upload route does to the table of packages\<close>

lemma store_icon_apps [simp]: "apps (snd (store_icon env h z w)) = apps w"
  by (simp add: store_icon_def Let_def split: option.splits sum.splits)

lemma store_screenshots_apps [simp]:
  "apps (snd (store_screenshots env h z ns i urls w)) = apps w"
  by (induction ns arbitrary: i urls w) (simp_all add: Let_def split: option.splits sum.splits)

lemma upload_insert_apps:
  "apps (snd (upload_insert env fl m h k icon urls w)) = apps w
   \<or> (\<exists>i. apps (snd (upload_insert env fl m h k icon urls w))
            = apps w @ [new_app_row env fl m h k icon urls i])"
  by (auto simp: upload_insert_def Let_def split: sum.splits option.splits)

lemma upload_insert_200:
  "upload_insert env fl m h k icon urls w = (Response 200 b, w1) \<Longrightarrow>
     \<exists>i. apps w1 = apps w @ [new_app_row env fl m h k icon urls i]"
  by (auto simp: upload_insert_def upload_fail_def Let_def split: sum.splits option.splits)

lemma upload_accept_apps:
  "apps (snd (upload_accept env fl m h k z w)) = apps w
   \<or> (\<exists>i icon urls. apps (snd (upload_accept env fl m h k z w))
            = apps w @ [new_app_row env fl m h k icon urls i])"
proof -
  obtain r1 w1 where s1: "store_icon env h z w = (r1, w1)" by force
  have a1: "apps w1 = apps w" using store_icon_apps [of env h z w] s1 by simp
  show ?thesis
  proof (cases r1)
    case (Inl msg)
    then show ?thesis using s1 a1 by (simp add: upload_accept_def)
  next
    case (Inr icon)
    obtain r2 w2 where s2: "store_screenshots env h z
        (take (min (length (screenshotFiles z)) 5) (screenshotFiles z)) 0 [] w1 = (r2, w2)"
      by force
    have a2: "apps w2 = apps w"
      by (metis a1 s2 snd_conv store_screenshots_apps)
    show ?thesis
    proof (cases r2)
      case (Inl msg)
      then show ?thesis using s1 s2 Inr a2 by (simp add: upload_accept_def Let_def)
    next
      case (Inr urls)
      then show ?thesis
        using s1 s2 \<open>r1 = Inr icon\<close> a2
          upload_insert_apps [where env = env and m = m and h = h and k = k and icon = icon
            and urls = urls and w = w2]
        by (auto simp: upload_accept_def Let_def)
    qed
  qed
qed

lemma upload_accept_200:
  assumes "upload_accept env fl m h k z w = (Response 200 b, w')"
  shows "\<exists>i icon urls. apps w' = apps w @ [new_app_row env fl m h k icon urls i]"
proof -
  obtain r1 w1 where s1: "store_icon env h z w = (r1, w1)" by force
  have a1: "apps w1 = apps w" using store_icon_apps [of env h z w] s1 by simp
  obtain r2 w2 where s2: "store_screenshots env h z
        (take (min (length (screenshotFiles z)) 5) (screenshotFiles z)) 0 [] w1 = (r2, w2)"
    by force
  have a2: "apps w2 = apps w"
    by (metis a1 s2 snd_conv store_screenshots_apps)
  from assms s1 s2 obtain icon urls where
    "upload_insert env fl m h k icon urls w2 = (Response 200 b, w')"
    by (auto simp: upload_accept_def upload_fail_def Let_def split: sum.splits)
  from upload_insert_200 [OF this] a2 show ?thesis by auto
qed

lemma upload_inspect_apps:
  "apps (snd (upload_inspect env fl m h k w)) = apps w
   \<or> (\<exists>i icon urls. apps (snd (upload_inspect env fl m h k w))
            = apps w @ [new_app_row env fl m h k icon urls i])"
  using upload_accept_apps [where w = w and k = k and env = env and m = m and h = h]
  by (auto simp: upload_inspect_def Let_def split: option.splits sum.splits)

lemma upload_inspect_200:
  assumes "upload_inspect env fl m h k w = (Response 200 b, w')"
  shows "\<exists>i icon urls. apps w' = apps w @ [new_app_row env fl m h k icon urls i]"
proof -
  from assms obtain z where "upload_accept env fl m h k z w = (Response 200 b, w')"
    by (auto simp: upload_inspect_def upload_fail_def Let_def
        split: option.splits sum.splits if_splits)
  from upload_accept_200 [OF this] show ?thesis by auto
qed

lemma upload_store_apps:
  "apps (snd (upload_store env fl m h w)) = apps w
   \<or> (\<exists>i k icon urls. apps (snd (upload_store env fl m h w))
            = apps w @ [new_app_row env fl m h k icon urls i])"
proof (cases "throws env (S3PutObject (upload_key h fl))")
  case None
  then show ?thesis
    using upload_inspect_apps [where env = env and m = m and h = h and k = "upload_key h fl"
        and fl = fl and w = "logged (S3PutObject (upload_key h fl))
                   (w\<lparr>s3 := s3_put (upload_key h fl) (file_bytes fl) (s3 w)\<rparr>)"]
    by (auto simp: upload_store_def Let_def)
next
  case (Some msg)
  then show ?thesis by (simp add: upload_store_def Let_def)
qed

lemma upload_store_200:
  assumes "upload_store env fl m h w = (Response 200 b, w')"
  shows "\<exists>i k icon urls. apps w' = apps w @ [new_app_row env fl m h k icon urls i]"
proof (cases "throws env (S3PutObject (upload_key h fl))")
  case None
  with assms have "upload_inspect env fl m h (upload_key h fl)
      (logged (S3PutObject (upload_key h fl))
                   (w\<lparr>s3 := s3_put (upload_key h fl) (file_bytes fl) (s3 w)\<rparr>))
      = (Response 200 b, w')"
    by (simp add: upload_store_def Let_def)
  from upload_inspect_200 [OF this] show ?thesis by auto
next
  case (Some msg)
  with assms show ?thesis by (simp add: upload_store_def Let_def upload_fail_def)
qed

lemma upload_POST_apps:
  "apps (snd (upload_POST env req w)) = apps w
   \<or> (\<exists>fl m i k icon urls.
         form_apk req = Some fl
         \<and> single (filter (\<lambda>r. hash r = sha256_hex env (file_bytes fl)) (apps w)) = None
         \<and> apps (snd (upload_POST env req w))
            = apps w @ [new_app_row env fl m (sha256_hex env (file_bytes fl)) k icon urls i])"
proof (cases "form_manifest req")
  case (Inl msg)
  then show ?thesis by (simp add: upload_POST_def)
next
  case (Inr mo)
  show ?thesis
  proof (cases "form_apk req")
    case None
    then show ?thesis using Inr by (simp add: upload_POST_def)
  next
    case (Some fl)
    show ?thesis
    proof (cases mo)
      case None
      then show ?thesis using Inr Some by (simp add: upload_POST_def)
    next
      case (Some m)
      show ?thesis
        using Inr \<open>form_apk req = Some fl\<close> Some
          upload_store_apps [where env = env and m = m and fl = fl
            and h = "sha256_hex env (file_bytes fl)"
            and w = "logged (AppsSelectByHash (sha256_hex env (file_bytes fl))) w"]
        by (simp add: upload_POST_def Let_def) blast
    qed
  qed
qed

lemma upload_POST_200:
  assumes "upload_POST env req w = (Response 200 b, w')"
  shows "\<exists>fl m i k icon urls.
         form_apk req = Some fl
         \<and> single (filter (\<lambda>r. hash r = sha256_hex env (file_bytes fl)) (apps w)) = None
         \<and> apps w'
            = apps w @ [new_app_row env fl m (sha256_hex env (file_bytes fl)) k icon urls i]"
proof -
  from assms obtain fl m where f: "form_apk req = Some fl" "form_manifest req = Inr (Some m)"
    by (auto simp: upload_POST_def upload_fail_def split: sum.splits option.splits)
  let ?h = "sha256_hex env (file_bytes fl)"
  from assms f have n: "single (filter (\<lambda>r. hash r = ?h) (apps w)) = None"
    by (auto simp: upload_POST_def Let_def split: if_splits)
  with assms f have
    "upload_store env fl m ?h (logged (AppsSelectByHash ?h) w) = (Response 200 b, w')"
    by (simp add: upload_POST_def Let_def)
  from upload_store_200 [OF this] f n show ?thesis by simp blast
qed

subsection \<open>The two loops of the entropy computation\<close>

lemma byte_index_eq:
  fixes b :: "8 word"
  assumes "i < 256"
  shows "(unat b = i) = (b = word_of_nat i)"
proof
  assume "unat b = i" then show "b = word_of_nat i" by auto
next
  assume "b = word_of_nat i"
  with assms show "unat b = i" by (simp add: unat_of_nat)
qed

lemma count_fold:
  assumes "length counts = 256" and "i < 256"
  shows "fold (\<lambda>b counts. counts[unat b := counts ! unat b + 1]) buffer counts ! i
           = counts ! i + count_list buffer (word_of_nat i :: 8 word)"
  using assms
proof (induction buffer arbitrary: counts)
  case Nil
  then show ?case by simp
next
  case (Cons b buffer)
  have lt: "unat b < 256" using unsigned_less [of b] by simp
  let ?c = "counts[unat b := counts ! unat b + 1]"
  have "fold (\<lambda>b counts. counts[unat b := counts ! unat b + 1]) buffer ?c ! i
          = ?c ! i + count_list buffer (word_of_nat i :: 8 word)"
    using Cons.IH [of ?c] Cons.prems by simp
  moreover have "?c ! i = counts ! i + (if unat b = i then 1 else 0)"
    using Cons.prems lt by (simp add: nth_list_update)
  ultimately show ?case
    using byte_index_eq [OF Cons.prems(2), of b] by auto
qed

lemma byteCounts_nth:
  "i < 256 \<Longrightarrow> byteCounts buffer ! i = count_list buffer (word_of_nat i :: 8 word)"
  using count_fold [of "replicate 256 0" i buffer] by (simp add: byteCounts_def)

lemma fold_minus_sum:
  "fold (\<lambda>i (e::real). e - g i) [0..<n] e0 = e0 - (\<Sum>i<n. g i)"
  by (induction n) simp_all

lemma entropy_loop:
  "calculateEntropy buffer =
     - (\<Sum>i<256. byte_probability buffer (word_of_nat i)
                  * log 2 (byte_probability buffer (word_of_nat i)))"
proof -
  let ?g = "\<lambda>i. if byteCounts buffer ! i > 0
                 then real (byteCounts buffer ! i) / real (length buffer)
                      * log 2 (real (byteCounts buffer ! i) / real (length buffer))
                 else 0"
  have "calculateEntropy buffer = fold (\<lambda>i (e::real). e - ?g i) [0..<256] 0"
    unfolding calculateEntropy_def Let_def
    by (rule arg_cong [where f = "\<lambda>f. fold f [0..<256] 0"]) (auto simp: fun_eq_iff)
  also have "\<dots> = - (\<Sum>i<256. ?g i)"
    by (simp add: fold_minus_sum)
  also have "(\<Sum>i<256. ?g i) = (\<Sum>i<256. byte_probability buffer (word_of_nat i)
                  * log 2 (byte_probability buffer (word_of_nat i)))"
    by (rule sum.cong) (auto simp: byteCounts_nth byte_probability_def)
  finally show ?thesis .
qed

lemma sum_bytes_reindex:
  "(\<Sum>b\<in>(UNIV :: 8 word set). h b) = (\<Sum>i<256. h (word_of_nat i))"
proof -
  have u: "(UNIV :: 8 word set) = word_of_nat ` {..<256}"
    using UNIV_word_eq_word_of_nat [where 'a = 8] by (simp add: lessThan_atLeast0)
  have i: "inj_on (word_of_nat :: nat \<Rightarrow> 8 word) {..<256}"
    using inj_on_word_of_nat [where 'a = 8] by (simp add: lessThan_atLeast0)
  have "sum h (word_of_nat ` {..<256}) = sum (h \<circ> word_of_nat) {..<256}"
    by (rule sum.reindex) (rule i)
  then have "sum h (UNIV :: 8 word set) = sum (h \<circ> word_of_nat) {..<256}"
    by (simp only: u [symmetric])
  then show ?thesis by (simp add: o_def)
qed

lemma calculateEntropy_shannon: "calculateEntropy buffer = shannon_entropy buffer"
  by (simp add: entropy_loop shannon_entropy_def sum_bytes_reindex)

lemma shannon_entropy_support:
  "shannon_entropy buffer =
     - (\<Sum>b\<in>set buffer. byte_probability buffer b * log 2 (byte_probability buffer b))"
proof -
  have "(\<Sum>b\<in>(UNIV :: 8 word set).
            byte_probability buffer b * log 2 (byte_probability buffer b))
      = (\<Sum>b\<in>set buffer. byte_probability buffer b * log 2 (byte_probability buffer b))"
    by (rule sum.mono_neutral_right) (auto simp: byte_probability_def count_list_0_iff)
  then show ?thesis by (simp add: shannon_entropy_def)
qed

lemma entropy_zero_buffer: "calculateEntropy (replicate n 0) = 0"
proof (cases n)
  case 0
  then show ?thesis by (simp add: calculateEntropy_shannon shannon_entropy_support)
next
  case (Suc k)
  have "count_list (replicate n (0 :: 8 word)) 0 = n" by (induction n) simp_all
  then have "byte_probability (replicate n 0) 0 = 1"
    using Suc by (simp add: byte_probability_def)
  moreover have "set (replicate n (0 :: 8 word)) = {0}" using Suc by auto
  ultimately show ?thesis by (simp add: calculateEntropy_shannon shannon_entropy_support)
qed

lemma entropy_all_bytes: "calculateEntropy all_bytes = 8"
proof -
  have d: "distinct all_bytes"
    unfolding all_bytes_def using inj_on_word_of_nat [where 'a = 8]
    by (simp add: distinct_map)
  have s: "set all_bytes = UNIV"
    unfolding all_bytes_def using UNIV_word_eq_word_of_nat [where 'a = 8] by simp
  have dc: "distinct xs \<Longrightarrow> x \<in> set xs \<Longrightarrow> count_list xs x = 1" for xs :: bytes and x
    by (induction xs) auto
  have c: "count_list all_bytes b = 1" for b
    using d s dc by simp
  have p: "byte_probability all_bytes b = 1 / 256" for b
  proof -
    have "length all_bytes = 256" by (simp add: all_bytes_def)
    then show ?thesis by (simp add: byte_probability_def c)
  qed
  have l: "log 2 (1 / 256) = - 8"
  proof -
    have "log 2 ((2::real) ^ 8) = real 8" by (rule log_pow_cancel) simp_all
    then have "log 2 256 = 8" by simp
    then show ?thesis by (simp add: log_divide)
  qed
  show ?thesis
    by (simp add: calculateEntropy_shannon shannon_entropy_def p l card_word)
qed

subsection \<open>The concrete inputs evaluated\<close>

lemma hex_clean: "hex_of_bytes clean_bytes = ''504b0304''"
  by (simp add: hex_of_bytes_def clean_bytes_def)

lemma hex_payload: "hex_of_bytes payload_bytes = ''504b0506''"
  by (simp add: hex_of_bytes_def payload_bytes_def)

lemma split_pop: "split_dot_pop ''app.zip'' = ''zip''"
  by (simp add: split_dot_pop_def)

lemma mal_payload: "maliciousFiles payload_zip = [''payload.exe'']"
  by (simp add: maliciousFiles_def payload_zip_def zip_keys_def maliciousPatterns_def str_tests)

lemma mal_clean: "maliciousFiles clean_zip = []"
  by (simp add: maliciousFiles_def clean_zip_def zip_keys_def maliciousPatterns_def str_tests)

lemma icon_clean: "icon_file clean_zip = None"
  by (simp add: icon_file_def zip_file_def clean_zip_def)

lemma shots_clean: "screenshotFiles clean_zip = []"
  by (simp add: screenshotFiles_def clean_zip_def zip_keys_def str_tests)

lemma manifest_clean: "manifest_indicators clean_zip = Inr []"
  by (simp add: manifest_indicators_def manifestFile_def zip_file_def clean_zip_def
      permission_names_def debuggable_flag_def str_includes_def sublist_code)

lemma cert_clean: "certificate_indicators env clean_zip = Inr []"
  by (simp add: certificate_indicators_def certFile_def zip_file_def clean_zip_def)

lemma names_clean:
  "file_name_indicators (zip_keys clean_zip) = []"
  "executable_indicators (zip_keys clean_zip) = []"
  by (simp_all add: file_name_indicators_def executable_indicators_def suspiciousFiles_def
      zip_keys_def clean_zip_def str_tests)

lemma uploaded_run:
  "upload_POST env0 (upload_of clean_bytes) empty_world =
     (Response 200
        (UploadSuccessBody ''app-1'' ''Notes'' ''1.0.0'' None ''A notepad'' ''uploaded''),
      \<lparr>s3 = [(''apks/504b0304.zip'', clean_bytes)], apps = [clean_row], threat_logs = [],
       admin_notifications = [], installations = [], shortcuts = [],
       trace = [AppsSelectByHash ''504b0304'', S3PutObject ''apks/504b0304.zip'',
                AppsInsert ''app-1'', FetchScanWorker ''app-1'']\<rparr>)"
proof -
  have e: "jszip_loadAsync env0 clean_bytes = Inr clean_zip" "throws env0 = (\<lambda>e. None)"
      "sha256_hex env0 clean_bytes = ''504b0304''" "apps_insert_result env0 = Inr ''app-1''"
    by (simp_all add: env0_def hex_clean)
  show ?thesis
    by (simp add: upload_POST_def upload_of_def e single_def empty_world_def
      upload_store_def upload_key_def split_pop Let_def logged_def s3_put_def
      upload_inspect_def mal_clean upload_accept_def store_icon_def icon_clean shots_clean
      upload_insert_def clean_row_def [symmetric])
      (simp add: clean_row_def new_app_row_def demo_manifest_def)
qed

lemma uploaded_world_eq:
  "uploaded_world =
     \<lparr>s3 = [(''apks/504b0304.zip'', clean_bytes)], apps = [clean_row], threat_logs = [],
       admin_notifications = [], installations = [], shortcuts = [],
       trace = [AppsSelectByHash ''504b0304'', S3PutObject ''apks/504b0304.zip'',
                AppsInsert ''app-1'', FetchScanWorker ''app-1'']\<rparr>"
  by (simp add: uploaded_world_def uploaded_run)

lemma scan_run_verdict:
  assumes "fetch_buffer env url = Inr buffer"
  shows "(\<exists>ts rs w'. scan_run env appId fileHash url w
                        = (Response 200 (ScanMaliciousBody ts rs), w')
            \<and> scan_status ts = ''malicious'')
       \<or> (\<exists>rs w'. scan_run env appId fileHash url w = (Response 200 (ScanCleanBody rs), w'))"
  using assms by (simp add: scan_run_def Let_def)

subsection \<open>Threats and positive findings\<close>

lemma clamav_threats_empty:
  "(clamav_threats (compile_results r0 r1 r2 r3) = []) = (\<not> clamav_positive r0)"
  by (cases r0) (simp_all add: clamav_threats_def compile_results_def)

lemma virustotal_threats_empty:
  "(virustotal_threats (compile_results r0 r1 r2 r3) = []) = (\<not> virustotal_positive r1)"
  by (cases r1) (simp_all add: virustotal_threats_def compile_results_def)

lemma yara_threats_empty:
  "(yara_threats (compile_results r0 r1 r2 r3) = []) = (\<not> yara_positive r2)"
  by (cases r2) (simp_all add: yara_threats_def compile_results_def)

lemma heuristic_threats_empty:
  "(heuristic_threats (compile_results r0 r1 r2 r3) = []) = (\<not> heuristic_positive r3)"
  by (cases r3) (simp_all add: heuristic_threats_def compile_results_def)

lemma collect_threats_empty:
  "(collect_threats (compile_results r0 r1 r2 r3) = []) =
     (\<not> (clamav_positive r0 \<or> virustotal_positive r1 \<or> yara_positive r2
         \<or> heuristic_positive r3))"
  by (simp add: collect_threats_def clamav_threats_empty virustotal_threats_empty
        yara_threats_empty heuristic_threats_empty)


lemma toLowerCase_exts:
  "map toLowerCase [''.exe'', ''.bat'', ''.sh'', ''.php'', ''.py'', ''.js'']
     = [''.exe'', ''.bat'', ''.sh'', ''.php'', ''.py'', ''.js'']"
  by (simp add: toLowerCase_def toLowerCase_char_def)

section \<open>Further facts about the routes\<close>

lemma entropy_clean: "calculateEntropy clean_bytes = 2"
proof -
  have l: "log 2 (1 / 4) = - 2"
  proof -
    have "log 2 ((2::real) ^ 2) = real 2" by (rule log_pow_cancel) simp_all
    then have "log 2 4 = 2" by simp
    then show ?thesis by (simp add: log_divide)
  qed
  show ?thesis
    by (simp add: calculateEntropy_shannon shannon_entropy_support clean_bytes_def
        byte_probability_def l)
qed

lemma filter_key_le1:
  "distinct (map f xs) \<Longrightarrow> length (filter (\<lambda>r. f r = h) xs) \<le> 1"
proof (induction xs)
  case Nil
  then show ?case by simp
next
  case (Cons x xs)
  show ?case
  proof (cases "f x = h")
    case True
    with Cons.prems have "filter (\<lambda>r. f r = h) xs = []"
      by (auto simp: filter_empty_conv intro: rev_image_eqI)
    with True show ?thesis by simp
  next
    case False
    with Cons show ?thesis by simp
  qed
qed

lemma single_None_distinct:
  assumes "distinct (map f xs)" and "single (filter (\<lambda>r. f r = h) xs) = None"
  shows "filter (\<lambda>r. f r = h) xs = []"
proof (cases "filter (\<lambda>r. f r = h) xs")
  case Nil
  then show ?thesis .
next
  case (Cons y ys)
  with filter_key_le1 [OF assms(1), of h] have "ys = []" by simp
  with Cons assms(2) show ?thesis by (simp add: single_def)
qed

lemma store_icon_trace: "\<exists>es. trace (snd (store_icon env h z w)) = trace w @ es"
  by (simp add: store_icon_def Let_def split: option.splits sum.splits)

lemma store_screenshots_trace:
  "\<exists>es. trace (snd (store_screenshots env h z ns i urls w)) = trace w @ es"
proof (induction ns arbitrary: i urls w)
  case Nil
  then show ?case by simp
next
  case (Cons n ns)
  show ?case
  proof (cases "zip_file z n")
    case None
    then show ?thesis using Cons.IH [of "i + 1" urls w] by simp
  next
    case (Some f)
    show ?thesis
    proof (cases "async_nodebuffer f")
      case (Inl msg)
      then show ?thesis using Some by simp
    next
      case (Inr buf)
      let ?k = "''screenshots/'' @ h @ ''_'' @ show_nat i @ ''.png''"
      show ?thesis
      proof (cases "throws env (S3PutObject ?k)")
        case None
        obtain es where "trace (snd (store_screenshots env h z ns (i + 1) (urls @ [s3_url env ?k])
            (logged (S3PutObject ?k)
               ((logged (EntryAsync n) w)\<lparr>s3 := s3_put ?k buf (s3 (logged (EntryAsync n) w))\<rparr>))))
           = trace (logged (S3PutObject ?k)
               ((logged (EntryAsync n) w)\<lparr>s3 := s3_put ?k buf (s3 (logged (EntryAsync n) w))\<rparr>)) @ es"
          using Cons.IH by blast
        then show ?thesis using Some Inr None by (simp add: Let_def logged_def)
      next
        case (Some msg)
        then show ?thesis using \<open>zip_file z n = Some f\<close> Inr by (simp add: Let_def)
      qed
    qed
  qed
qed

lemma upload_insert_trace:
  "\<exists>es. trace (snd (upload_insert env fl m h k icon urls w)) = trace w @ es"
  by (simp add: upload_insert_def Let_def split: sum.splits option.splits)

lemma upload_accept_trace:
  "\<exists>es. trace (snd (upload_accept env fl m h k z w)) = trace w @ es"
proof -
  obtain r1 w1 where s1: "store_icon env h z w = (r1, w1)" by force
  obtain e1 where t1: "trace w1 = trace w @ e1"
    using store_icon_trace [of env h z w] s1 by auto
  obtain r2 w2 where s2: "store_screenshots env h z
        (take (min (length (screenshotFiles z)) 5) (screenshotFiles z)) 0 [] w1 = (r2, w2)"
    by force
  obtain e2 where t2: "trace w2 = trace w1 @ e2"
    by (metis s2 snd_conv store_screenshots_trace)
  show ?thesis
  proof (cases r1)
    case (Inl msg)
    then show ?thesis using s1 t1 by (simp add: upload_accept_def)
  next
    case (Inr icon)
    show ?thesis
    proof (cases r2)
      case (Inl msg)
      then show ?thesis using s1 s2 Inr t1 t2 by (simp add: upload_accept_def Let_def)
    next
      case (Inr urls)
      obtain e3 where "trace (snd (upload_insert env fl m h k icon urls w2)) = trace w2 @ e3"
        using upload_insert_trace by blast
      then show ?thesis
        using s1 s2 \<open>r1 = Inr icon\<close> Inr t1 t2 by (simp add: upload_accept_def Let_def)
    qed
  qed
qed

lemma upload_inspect_trace:
  "\<exists>es. trace (snd (upload_inspect env fl m h k w)) = trace w @ es"
  using upload_accept_trace [where w = w and k = k and env = env and m = m and h = h and fl = fl]
  by (auto simp: upload_inspect_def Let_def split: option.splits sum.splits)

lemma upload_store_trace:
  "upload_store env fl m h w = (Response 200 b, w') \<Longrightarrow>
     \<exists>es. trace w' = trace w @ S3PutObject (upload_key h fl) # es"
proof (cases "throws env (S3PutObject (upload_key h fl))")
  case None
  assume a: "upload_store env fl m h w = (Response 200 b, w')"
  let ?w1 = "logged (S3PutObject (upload_key h fl))
                   (w\<lparr>s3 := s3_put (upload_key h fl) (file_bytes fl) (s3 w)\<rparr>)"
  obtain es where "trace (snd (upload_inspect env fl m h (upload_key h fl) ?w1)) = trace ?w1 @ es"
    using upload_inspect_trace by blast
  moreover have "upload_inspect env fl m h (upload_key h fl) ?w1 = (Response 200 b, w')"
    using a None by (simp add: upload_store_def Let_def)
  ultimately show ?thesis by simp
next
  case (Some msg)
  assume "upload_store env fl m h w = (Response 200 b, w')"
  with Some show ?thesis by (simp add: upload_store_def Let_def upload_fail_def)
qed

lemma fold_logged [simp]:
  "apps (fold logged es w) = apps w"
  "trace (fold logged es w) = trace w @ es"
  by (induction es arbitrary: w) simp_all

lemma notifyAdmin_simps [simp]:
  "apps (notifyAdmin env a ts w) = apps w"
  "trace (notifyAdmin env a ts w) = trace w @ [AdminNotificationsInsert a]"
  by (simp_all add: notifyAdmin_def)

lemma scan_run_apps:
  "apps (snd (scan_run env appId fileHash url w)) = apps w
   \<or> (\<exists>rs ts. apps (snd (scan_run env appId fileHash url w))
                 = map (update_scan env appId rs ts) (apps w))"
  by (auto simp: scan_run_def Let_def split: sum.splits)

lemma scan_POST_apps:
  "apps (snd (scan_POST env req w)) = apps w
   \<or> (\<exists>appId rs ts. apps (snd (scan_POST env req w))
                 = map (update_scan env appId rs ts) (apps w))"
proof (cases "falsy (scan_appId req) \<or> falsy (scan_fileHash req) \<or> falsy (scan_url req)")
  case True
  then show ?thesis by (simp add: scan_POST_def)
next
  case False
  then obtain a h u where "scan_appId req = Some a" "scan_fileHash req = Some h"
      "scan_url req = Some u"
    by (auto simp: falsy_def split: option.splits)
  then show ?thesis
    using False scan_run_apps [of env a h u w] by (auto simp: scan_POST_def)
qed

lemma update_scan_rows:
  "update_scan env appId rs ts r = r
   \<or> (verified (update_scan env appId rs ts r) = (scan_status ts = ''clean'')
      \<and> status (update_scan env appId rs ts r) = Some (scan_status ts))"
  by (simp add: update_scan_def)


lemma update_scan_inv:
  "\<not> verified r \<or> status r = Some ''clean'' \<Longrightarrow>
   \<not> verified (update_scan env appId rs ts r)
     \<or> status (update_scan env appId rs ts r) = Some ''clean''"
  using update_scan_rows [of env appId rs ts r] by auto

lemma perform_all_apps:
  "perform_all env es w = Inr w' \<Longrightarrow> apps w' = apps w"
  "perform_all env es w = Inl (msg, w') \<Longrightarrow> apps w' = apps w"
  by (induction es arbitrary: w) (auto split: option.splits)

lemma install_verified_apps:
  "apps (snd (install_verified env appId userId app w)) = apps w
   \<or> (\<exists>d. apps (snd (install_verified env appId userId app w))
            = map (\<lambda>r. if app_id r = appId then r\<lparr>downloads := d\<rparr> else r) (apps w))"
  by (auto simp: install_verified_def install_fail_def Let_def
      split: sum.splits option.splits prod.splits dest: perform_all_apps)

lemma install_POST_apps:
  "apps (snd (install_POST env req w)) = apps w
   \<or> (\<exists>appId d. apps (snd (install_POST env req w))
            = map (\<lambda>r. if app_id r = appId then r\<lparr>downloads := d\<rparr> else r) (apps w))"
proof (cases "falsy (install_appId req) \<or> falsy (install_userId req)")
  case True
  then show ?thesis by (simp add: install_POST_def)
next
  case False
  then obtain a u where au: "install_appId req = Some a" "install_userId req = Some u"
    by (auto simp: falsy_def split: option.splits)
  show ?thesis
  proof (cases "single (filter (\<lambda>r. app_id r = a) (apps w))")
    case None
    then show ?thesis using False au by (simp add: install_POST_def Let_def)
  next
    case (Some app)
    show ?thesis
    proof (cases "verified app")
      case True
      then show ?thesis
        using False au Some
          install_verified_apps [of env a u app "logged (AppsSelectById a) w"]
        by (auto simp: install_POST_def Let_def)
    next
      case False
      then show ?thesis
        using \<open>\<not> (falsy (install_appId req) \<or> falsy (install_userId req))\<close> au Some
        by (simp add: install_POST_def Let_def)
    qed
  qed
qed

lemma inv_upload: "verified_implies_clean w \<Longrightarrow> verified_implies_clean (snd (upload_POST env req w))"
  using upload_POST_apps [of env req w] by (auto simp: verified_implies_clean_def)

lemma inv_scan: "verified_implies_clean w \<Longrightarrow> verified_implies_clean (snd (scan_POST env req w))"
  using scan_POST_apps [of env req w] update_scan_inv
  by (auto simp: verified_implies_clean_def list_all_iff)

lemma inv_install:
  "verified_implies_clean w \<Longrightarrow> verified_implies_clean (snd (install_POST env req w))"
  using install_POST_apps [of env req w]
  by (auto simp: verified_implies_clean_def list_all_iff)

lemma scan_clean_run:
  "scan_POST env0 scan_of_clean uploaded_world =
     (Response 200 (ScanCleanBody
        \<lparr>clamav = Some (ClamScanned False []),
         virustotal = Some \<lparr>positives = 0, total = 0, vt_status = Some ''not_found'',
                            vt_engines = None, vt_error = None\<rparr>,
         yara = Some \<lparr>matches = [], scanned = True, yara_error = None\<rparr>,
         heuristic = Some (HeuristicReport False [] 2 2),
         overall = ''clean''\<rparr>),
      uploaded_world
        \<lparr>apps := [update_scan env0 ''app-1''
                    \<lparr>clamav = Some (ClamScanned False []),
                     virustotal = Some \<lparr>positives = 0, total = 0, vt_status = Some ''not_found'',
                            vt_engines = None, vt_error = None\<rparr>,
                     yara = Some \<lparr>matches = [], scanned = True, yara_error = None\<rparr>,
                     heuristic = Some (HeuristicReport False [] 2 2),
                     overall = ''clean''\<rparr> [] clean_row],
         trace := trace uploaded_world @
           [FetchUrl ''https://fireos-apps.s3.amazonaws.com/apks/504b0304.zip'',
            EngineRun ''clamav'', EngineRun ''virustotal'', EngineRun ''yara'',
            EngineRun ''heuristic'', AppsUpdateScan ''app-1'' True ''clean'']\<rparr>)"
proof -
  have e: "fetch_buffer env0 ''https://fireos-apps.s3.amazonaws.com/apks/504b0304.zip''
             = Inr clean_bytes"
    "clamav_scanFile env0 clean_bytes = Inr (False, [])"
    "virustotal_lookup env0 ''504b0304'' = Inr (404, Inl ''not requested'')"
    "yara_scanBuffer env0 clean_bytes = Inr (Some [])"
    "jszip_loadAsync env0 clean_bytes = Inr clean_zip"
    by (simp_all add: env0_def)
  have h: "heuristicAnalysis env0 clean_bytes = HeuristicReport False [] 2 2"
    by (simp add: heuristicAnalysis_def e manifest_clean cert_clean names_clean Let_def
        entropy_indicators_def entropy_clean) (simp add: zip_keys_def clean_zip_def)
  have c: "collect_threats (compile_results (Fulfilled (ClamScanned False []))
        (Fulfilled \<lparr>positives = 0, total = 0, vt_status = Some ''not_found'',
                            vt_engines = None, vt_error = None\<rparr>)
        (Fulfilled \<lparr>matches = [], scanned = True, yara_error = None\<rparr>)
        (Fulfilled (HeuristicReport False [] 2 2))) = []"
    by (simp add: collect_threats_empty)
  show ?thesis
    by (simp add: scan_POST_def scan_of_clean_def falsy_def scan_run_def e Let_def
        scanWithClamAV_def scanWithVirusTotal_def scanWithYARA_def h c scan_status_def)
      (simp add: compile_results_def uploaded_world_eq logged_def)
qed


lemma upload_rows:
  "\<forall>r \<in> set (apps (snd (upload_POST env req w))).
      r \<in> set (apps w) \<or> (status r = None \<and> \<not> verified r)"
  using upload_POST_apps [of env req w] by auto


lemma install_rows: "map status (apps (snd (install_POST env req w))) = map status (apps w)"
  using install_POST_apps [of env req w] by (auto simp: o_def)

lemma store_icon_ok:
  assumes "\<forall>e. throws env e = None"
    and "\<forall>f. icon_file z = Some f \<longrightarrow> (\<exists>b. async_nodebuffer f = Inr b)"
  shows "\<exists>icon w'. store_icon env h z w = (Inr icon, w')"
proof (cases "icon_file z")
  case None
  then show ?thesis by (simp add: store_icon_def)
next
  case (Some f)
  with assms(2) obtain b where "async_nodebuffer f = Inr b" by blast
  with Some assms(1) show ?thesis by (simp add: store_icon_def Let_def)
qed

lemma store_screenshots_ok:
  assumes "\<forall>e. throws env e = None"
    and "\<forall>n \<in> set ns. \<forall>f. zip_file z n = Some f \<longrightarrow> (\<exists>b. async_nodebuffer f = Inr b)"
  shows "\<exists>urls w'. store_screenshots env h z ns i acc w = (Inr urls, w')"
  using assms(2)
proof (induction ns arbitrary: i acc w)
  case Nil
  then show ?case by simp
next
  case (Cons n ns)
  show ?case
  proof (cases "zip_file z n")
    case None
    then show ?thesis using Cons by simp
  next
    case (Some f)
    with Cons.prems obtain b where "async_nodebuffer f = Inr b" by auto
    with Some assms(1) Cons show ?thesis by (simp add: Let_def)
  qed
qed

lemma upload_insert_ok:
  assumes "\<forall>e. throws env e = None" and "apps_insert_result env = Inr i"
  shows "fst (upload_insert env fl m h k icon urls w) =
           Response 200 (UploadSuccessBody i (m_name m) (m_version m) icon (m_description m)
                           ''uploaded'')"
  using assms by (simp add: upload_insert_def Let_def new_app_row_def)

lemma mal_bomb: "maliciousFiles bomb_zip = []"
  by (simp add: maliciousFiles_def bomb_zip_def zip_keys_def maliciousPatterns_def str_tests)

lemma icon_bomb: "icon_file bomb_zip = None"
  by (simp add: icon_file_def zip_file_def bomb_zip_def)

lemma shots_bomb: "screenshotFiles bomb_zip = []"
  by (simp add: screenshotFiles_def bomb_zip_def zip_keys_def str_tests)

lemma hex_bomb: "hex_of_bytes bomb_bytes = ''504b0708''"
  by (simp add: hex_of_bytes_def bomb_bytes_def)

lemma env0_bomb: "jszip_loadAsync env0 bomb_bytes = Inr bomb_zip"
  by (simp add: env0_def bomb_bytes_def clean_bytes_def payload_bytes_def)

subsection \<open>Unique hashes, the rejected archive, the installed package\<close>

lemma hash_unique_upload:
  assumes "hash_unique w"
  shows "hash_unique (snd (upload_POST env req w))"
proof -
  from upload_POST_apps [of env req w] consider
    (same) "apps (snd (upload_POST env req w)) = apps w"
    | (new) fl m i k icon urls where
      "single (filter (\<lambda>r. hash r = sha256_hex env (file_bytes fl)) (apps w)) = None"
      "apps (snd (upload_POST env req w))
         = apps w @ [new_app_row env fl m (sha256_hex env (file_bytes fl)) k icon urls i]"
    by blast
  then show ?thesis
  proof cases
    case same
    with assms show ?thesis by (simp add: hash_unique_def)
  next
    case new
    have "filter (\<lambda>r. hash r = sha256_hex env (file_bytes fl)) (apps w) = []"
      using single_None_distinct [of hash "apps w"] assms new(1) by (simp add: hash_unique_def)
    with assms new(2) show ?thesis by (auto simp: hash_unique_def filter_empty_conv)
  qed
qed

lemma update_scan_hash [simp]: "hash (update_scan env a rs ts r) = hash r"
  by (simp add: update_scan_def)

lemma hash_unique_scan:
  "hash_unique w \<Longrightarrow> hash_unique (snd (scan_POST env req w))"
  using scan_POST_apps [of env req w] by (auto simp: hash_unique_def o_def)

lemma hash_unique_install:
  "hash_unique w \<Longrightarrow> hash_unique (snd (install_POST env req w))"
proof -
  have h: "hash \<circ> (\<lambda>r. if app_id r = a then r\<lparr>downloads := d\<rparr> else r) = hash" for a d
    by (rule ext) simp
  show "hash_unique w \<Longrightarrow> hash_unique (snd (install_POST env req w))"
    using install_POST_apps [of env req w] by (auto simp: hash_unique_def h)
qed

lemma malicious_upload_general:
  assumes "form_apk req = Some fl" and "form_manifest req = Inr (Some m)"
    and "single (filter (\<lambda>r. hash r = sha256_hex env (file_bytes fl)) (apps w)) = None"
    and "throws env (S3PutObject (upload_key (sha256_hex env (file_bytes fl)) fl)) = None"
    and "jszip_loadAsync env (file_bytes fl) = Inr z"
    and "maliciousFiles z \<noteq> []"
  shows "upload_POST env req w =
           (Response 500 (ErrorBody ''DeleteObjectCommand is not defined''),
            logged (S3PutObject (upload_key (sha256_hex env (file_bytes fl)) fl))
              ((logged (AppsSelectByHash (sha256_hex env (file_bytes fl))) w)
                 \<lparr>s3 := s3_put (upload_key (sha256_hex env (file_bytes fl)) fl)
                               (file_bytes fl) (s3 w)\<rparr>))"
  using assms
  by (simp add: upload_POST_def Let_def upload_store_def upload_inspect_def
      upload_module_bindings_def upload_fail_def message_or_def)

lemma malicious_upload_blob_stays:
  assumes "form_apk req = Some fl" and "form_manifest req = Inr (Some m)"
    and "single (filter (\<lambda>r. hash r = sha256_hex env (file_bytes fl)) (apps w)) = None"
    and "throws env (S3PutObject (upload_key (sha256_hex env (file_bytes fl)) fl)) = None"
    and "jszip_loadAsync env (file_bytes fl) = Inr z"
    and "maliciousFiles z \<noteq> []"
  shows "map_of (s3 (snd (upload_POST env req w)))
           (upload_key (sha256_hex env (file_bytes fl)) fl) = Some (file_bytes fl)
         \<and> apps (snd (upload_POST env req w)) = apps w"
  by (simp add: malicious_upload_general [OF assms] s3_put_def)

lemma install_success_verified:
  assumes "install_POST env req w = (Response 200 b, w')"
  shows "\<exists>appId app. install_appId req = Some appId
           \<and> single (filter (\<lambda>r. app_id r = appId) (apps w)) = Some app \<and> verified app"
proof -
  from assms have nf: "\<not> (falsy (install_appId req) \<or> falsy (install_userId req))"
    by (auto simp: install_POST_def)
  then obtain a u where au: "install_appId req = Some a" "install_userId req = Some u"
    by (auto simp: falsy_def split: option.splits)
  from assms nf au obtain app where
    "single (filter (\<lambda>r. app_id r = a) (apps w)) = Some app" "verified app"
    by (auto simp: install_POST_def Let_def split: option.splits if_splits)
  with au show ?thesis by blast
qed

lemma show_ms: "show_nat 1714564800000 = ''1714564800000''"
  by (simp add: show_nat.simps digit_char_def)

lemma key_of_url:
  "split_second ''.s3.amazonaws.com/'' ''https://fireos-apps.s3.amazonaws.com/apks/504b0304.zip''
     = Some ''apks/504b0304.zip''"
  by (simp add: split_second_def)

lemma scanned_row:
  "\<exists>r. apps scanned_world = [r] \<and> verified r \<and> app_id r = ''app-1''
       \<and> download_url r = ''https://fireos-apps.s3.amazonaws.com/apks/504b0304.zip''
       \<and> s3 scanned_world = [(''apks/504b0304.zip'', clean_bytes)]"
  by (simp add: scanned_world_def scan_clean_run)
    (simp add: uploaded_world_eq clean_row_def update_scan_def scan_status_def new_app_row_def
      s3_url_def env0_def)

lemma install_clean_run:
  "\<exists>b w'. install_POST env0 install_of_clean scanned_world = (Response 200 b, w')"
proof -
  from scanned_row obtain r where r: "apps scanned_world = [r]" "verified r"
    "app_id r = ''app-1''"
    "download_url r = ''https://fireos-apps.s3.amazonaws.com/apks/504b0304.zip''"
    "s3 scanned_world = [(''apks/504b0304.zip'', clean_bytes)]"
    by blast
  have e: "throws env0 = (\<lambda>e. None)"
    "read_manifest env0 = (\<lambda>p. Some \<lparr>im_permissions = None, im_entryPoint = None,
                                    im_type = None, im_categories = None\<rparr>)"
    "installations_insert_result env0 = Inr ''inst-1''"
    by (simp_all add: env0_def)
  show ?thesis
    by (simp add: install_POST_def install_of_clean_def falsy_def Let_def r single_def
        install_verified_def s3_get_def key_of_url e suffix_to_prefix)
qed

subsection \<open>The answer and the update of the scan route\<close>

lemma scan_POST_run:
  "scan_appId sreq = Some appId \<and> appId \<noteq> [] \<and> scan_fileHash sreq = Some fileHash
     \<and> fileHash \<noteq> [] \<and> scan_url sreq = Some url \<and> url \<noteq> []
   \<Longrightarrow> scan_POST env sreq w = scan_run env appId fileHash url w"
  by (simp add: scan_POST_def falsy_def)

lemma scan_run_is_aggregate:
  assumes "fetch_buffer env url = Inr buffer"
  shows "fst (scan_run env appId fileHash url w) =
           (let results = compile_results
                            (Fulfilled (scanWithClamAV env buffer))
                            (Fulfilled (scanWithVirusTotal env fileHash))
                            (Fulfilled (scanWithYARA env buffer))
                            (Fulfilled (heuristicAnalysis env buffer))
            in if scan_status (collect_threats results) = ''malicious''
               then Response 200 (ScanMaliciousBody (collect_threats results) results)
               else Response 200 (ScanCleanBody results))"
    and "apps (snd (scan_run env appId fileHash url w)) =
           (let results = compile_results
                            (Fulfilled (scanWithClamAV env buffer))
                            (Fulfilled (scanWithVirusTotal env fileHash))
                            (Fulfilled (scanWithYARA env buffer))
                            (Fulfilled (heuristicAnalysis env buffer))
            in map (update_scan env appId results (collect_threats results)) (apps w))"
  using assms by (simp_all add: scan_run_def Let_def)

lemma engines_status:
  "scan_status (collect_threats (compile_results
       (Fulfilled (scanWithClamAV env buffer))
       (Fulfilled (scanWithVirusTotal env fileHash))
       (Fulfilled (scanWithYARA env buffer))
       (Fulfilled (heuristicAnalysis env buffer)))) =
     (if is_infected (scanWithClamAV env buffer) \<or> positives (scanWithVirusTotal env fileHash) > 0
         \<or> matches (scanWithYARA env buffer) \<noteq> [] \<or> suspicious (heuristicAnalysis env buffer)
      then ''malicious'' else ''clean'')"
  using collect_threats_empty [of "Fulfilled (scanWithClamAV env buffer)"
      "Fulfilled (scanWithVirusTotal env fileHash)" "Fulfilled (scanWithYARA env buffer)"
      "Fulfilled (heuristicAnalysis env buffer)"]
  by (simp add: scan_status_def)

lemma scan_route_verdict:
  assumes "scan_appId sreq = Some appId \<and> appId \<noteq> [] \<and> scan_fileHash sreq = Some fileHash
     \<and> fileHash \<noteq> [] \<and> scan_url sreq = Some url \<and> url \<noteq> []
     \<and> fetch_buffer env url = Inr buffer"
  shows "(let results = compile_results
                      (Fulfilled (scanWithClamAV env buffer))
                      (Fulfilled (scanWithVirusTotal env fileHash))
                      (Fulfilled (scanWithYARA env buffer))
                      (Fulfilled (heuristicAnalysis env buffer));
              positive = (is_infected (scanWithClamAV env buffer)
                          \<or> positives (scanWithVirusTotal env fileHash) > 0
                          \<or> matches (scanWithYARA env buffer) \<noteq> []
                          \<or> suspicious (heuristicAnalysis env buffer))
          in fst (scan_POST env sreq w) =
               (if positive
                then Response 200 (ScanMaliciousBody (collect_threats results) results)
                else Response 200 (ScanCleanBody results))
             \<and> (positive \<longrightarrow> collect_threats results \<noteq> [])
             \<and> apps (snd (scan_POST env sreq w)) =
                 map (\<lambda>r. if app_id r = appId
                          then r\<lparr>verified := \<not> positive,
                                 last_scan := Some (now_iso env),
                                 row_scan_results := Some results,
                                 threats := (if positive then Some (collect_threats results)
                                             else None),
                                 status := Some (if positive then ''malicious'' else ''clean'')\<rparr>
                          else r) (apps w))"
proof -
  let ?results = "compile_results
                      (Fulfilled (scanWithClamAV env buffer))
                      (Fulfilled (scanWithVirusTotal env fileHash))
                      (Fulfilled (scanWithYARA env buffer))
                      (Fulfilled (heuristicAnalysis env buffer))"
  let ?positive = "is_infected (scanWithClamAV env buffer)
                          \<or> positives (scanWithVirusTotal env fileHash) > 0
                          \<or> matches (scanWithYARA env buffer) \<noteq> []
                          \<or> suspicious (heuristicAnalysis env buffer)"
  have r: "scan_POST env sreq w = scan_run env appId fileHash url w"
    using assms by (simp add: scan_POST_run)
  have f: "fetch_buffer env url = Inr buffer" using assms by simp
  have s: "scan_status (collect_threats ?results) = (if ?positive then ''malicious'' else ''clean'')"
    by (rule engines_status)
  have p: "?positive = (collect_threats ?results \<noteq> [])"
    using collect_threats_empty [of "Fulfilled (scanWithClamAV env buffer)"
      "Fulfilled (scanWithVirusTotal env fileHash)" "Fulfilled (scanWithYARA env buffer)"
      "Fulfilled (heuristicAnalysis env buffer)"]
    by simp
  have u: "update_scan env appId ?results (collect_threats ?results) =
        (\<lambda>r. if app_id r = appId
                          then r\<lparr>verified := \<not> ?positive,
                                 last_scan := Some (now_iso env),
                                 row_scan_results := Some ?results,
                                 threats := (if ?positive then Some (collect_threats ?results)
                                             else None),
                                 status := Some (if ?positive then ''malicious'' else ''clean'')\<rparr>
                          else r)"
  proof (rule ext, cases ?positive)
    case True
    fix x
    from True s have "scan_status (collect_threats ?results) = ''malicious''" by simp
    moreover from True p have "collect_threats ?results \<noteq> []" by simp
    ultimately show "update_scan env appId ?results (collect_threats ?results) x =
        (if app_id x = appId
                          then x\<lparr>verified := \<not> ?positive,
                                 last_scan := Some (now_iso env),
                                 row_scan_results := Some ?results,
                                 threats := (if ?positive then Some (collect_threats ?results)
                                             else None),
                                 status := Some (if ?positive then ''malicious'' else ''clean'')\<rparr>
                          else x)"
      using True by (simp add: update_scan_def)
  next
    case False
    fix x
    from False s have "scan_status (collect_threats ?results) = ''clean''" by simp
    moreover from False p have "collect_threats ?results = []" by simp
    ultimately show "update_scan env appId ?results (collect_threats ?results) x =
        (if app_id x = appId
                          then x\<lparr>verified := \<not> ?positive,
                                 last_scan := Some (now_iso env),
                                 row_scan_results := Some ?results,
                                 threats := (if ?positive then Some (collect_threats ?results)
                                             else None),
                                 status := Some (if ?positive then ''malicious'' else ''clean'')\<rparr>
                          else x)"
      using False by (simp add: update_scan_def)
  qed
  have a: "fst (scan_POST env sreq w) =
               (if ?positive
                then Response 200 (ScanMaliciousBody (collect_threats ?results) ?results)
                else Response 200 (ScanCleanBody ?results))"
    using scan_run_is_aggregate(1) [OF f, of appId fileHash w] r s
    by (simp add: Let_def)
  have b: "apps (snd (scan_POST env sreq w)) =
     map (update_scan env appId ?results (collect_threats ?results)) (apps w)"
    using scan_run_is_aggregate(2) [OF f, of appId fileHash w] r by (simp add: Let_def)
  from a b p show ?thesis unfolding Let_def u [symmetric] by simp
qed

lemma engines_failed_negative:
  assumes "clamav_scanFile env buffer = Inl m0" and "virustotal_lookup env fileHash = Inl m1"
    and "yara_scanBuffer env buffer = Inl m2" and "jszip_loadAsync env buffer = Inl m3"
  shows "\<not> (is_infected (scanWithClamAV env buffer)
            \<or> positives (scanWithVirusTotal env fileHash) > 0
            \<or> matches (scanWithYARA env buffer) \<noteq> []
            \<or> suspicious (heuristicAnalysis env buffer))"
  using assms
  by (simp add: scanWithClamAV_def scanWithVirusTotal_def scanWithYARA_def heuristicAnalysis_def)

lemma scan_route_all_failed:
  assumes "scan_appId sreq = Some appId \<and> appId \<noteq> [] \<and> scan_fileHash sreq = Some fileHash
     \<and> fileHash \<noteq> [] \<and> scan_url sreq = Some url \<and> url \<noteq> []
     \<and> fetch_buffer env url = Inr buffer
     \<and> clamav_scanFile env buffer = Inl m0 \<and> virustotal_lookup env fileHash = Inl m1
     \<and> yara_scanBuffer env buffer = Inl m2 \<and> jszip_loadAsync env buffer = Inl m3"
  shows "(\<exists>rs. fst (scan_POST env sreq w) = Response 200 (ScanCleanBody rs))
       \<and> map status (filter (\<lambda>r. app_id r = appId) (apps (snd (scan_POST env sreq w))))
           = map (\<lambda>r. Some ''clean'') (filter (\<lambda>r. app_id r = appId) (apps w))"
proof -
  have n: "\<not> (is_infected (scanWithClamAV env buffer)
            \<or> positives (scanWithVirusTotal env fileHash) > 0
            \<or> matches (scanWithYARA env buffer) \<noteq> []
            \<or> suspicious (heuristicAnalysis env buffer))"
    using assms engines_failed_negative [of env buffer m0 fileHash m1 m2 m3] by blast
  have h: "scan_appId sreq = Some appId \<and> appId \<noteq> [] \<and> scan_fileHash sreq = Some fileHash
     \<and> fileHash \<noteq> [] \<and> scan_url sreq = Some url \<and> url \<noteq> []
     \<and> fetch_buffer env url = Inr buffer"
    using assms by blast
  note v = scan_route_verdict [OF h, of w, unfolded Let_def]
  from v n have a: "\<exists>rs. fst (scan_POST env sreq w) = Response 200 (ScanCleanBody rs)"
    by simp
  have m: "map status (filter (\<lambda>r. app_id r = a) (map (\<lambda>r. if app_id r = a then f r else r) xs))
             = map (\<lambda>r. status (f r)) (filter (\<lambda>r. app_id r = a) xs)"
    if "\<And>r. app_id (f r) = app_id r" for a f and xs :: "app_row list"
    using that by (induction xs) simp_all
  from v n have "apps (snd (scan_POST env sreq w)) =
      map (\<lambda>r. if app_id r = appId
               then r\<lparr>verified := True, last_scan := Some (now_iso env),
                      row_scan_results := Some (compile_results
                        (Fulfilled (scanWithClamAV env buffer))
                        (Fulfilled (scanWithVirusTotal env fileHash))
                        (Fulfilled (scanWithYARA env buffer))
                        (Fulfilled (heuristicAnalysis env buffer))),
                      threats := None, status := Some ''clean''\<rparr>
               else r) (apps w)"
    by simp
  then have b: "map status (filter (\<lambda>r. app_id r = appId) (apps (snd (scan_POST env sreq w))))
           = map (\<lambda>r. Some ''clean'') (filter (\<lambda>r. app_id r = appId) (apps w))"
    by (simp add: m)
  from a b show ?thesis by (rule conjI)
qed

lemma install_rows_verified:
  "map verified (apps (snd (install_POST env req w))) = map verified (apps w)"
  using install_POST_apps [of env req w] by (auto simp: o_def)

lemma infected_positive: "is_infected (scanWithClamAV infected_env clean_bytes)"
  by (simp add: scanWithClamAV_def infected_env_def)

lemma scan_of_clean_fields:
  "scan_appId scan_of_clean = Some ''app-1'' \<and> ''app-1'' \<noteq> []
   \<and> scan_fileHash scan_of_clean = Some ''504b0304'' \<and> ''504b0304'' \<noteq> []
   \<and> scan_url scan_of_clean = Some ''https://fireos-apps.s3.amazonaws.com/apks/504b0304.zip''
   \<and> ''https://fireos-apps.s3.amazonaws.com/apks/504b0304.zip'' \<noteq> []"
  by (simp add: scan_of_clean_def)

lemma fetch_clean:
  "fetch_buffer env0 ''https://fireos-apps.s3.amazonaws.com/apks/504b0304.zip'' = Inr clean_bytes"
  "fetch_buffer infected_env ''https://fireos-apps.s3.amazonaws.com/apks/504b0304.zip''
     = Inr clean_bytes"
  "fetch_buffer offline_env ''https://fireos-apps.s3.amazonaws.com/apks/504b0304.zip''
     = Inr clean_bytes"
  by (simp_all add: env0_def infected_env_def offline_env_def)

lemma offline_fails:
  "clamav_scanFile offline_env clean_bytes = Inl ''connect ECONNREFUSED 127.0.0.1:3310''"
  "virustotal_lookup offline_env ''504b0304'' = Inl ''request timed out''"
  "yara_scanBuffer offline_env clean_bytes = Inl ''yara is not available''"
  "jszip_loadAsync offline_env clean_bytes
     = Inl ''Corrupted zip: missing end of central directory''"
  by (simp_all add: offline_env_def env0_def)

lemma uploaded_apps: "apps uploaded_world = [clean_row]" "app_id clean_row = ''app-1''"
  by (simp_all add: uploaded_world_eq clean_row_def)

lemma upload_rows_unverified:
  "\<forall>r \<in> set (apps (snd (upload_POST env req w))). r \<in> set (apps w) \<or> \<not> verified r"
  using upload_rows [of env req w] by blast

lemma scan_route_rows:
  assumes "scan_appId sreq = Some appId \<and> appId \<noteq> [] \<and> scan_fileHash sreq = Some fileHash
     \<and> fileHash \<noteq> [] \<and> scan_url sreq = Some url \<and> url \<noteq> []
     \<and> fetch_buffer env url = Inr buffer"
  shows "apps (snd (scan_POST env sreq w)) =
           (let results = compile_results
                            (Fulfilled (scanWithClamAV env buffer))
                            (Fulfilled (scanWithVirusTotal env fileHash))
                            (Fulfilled (scanWithYARA env buffer))
                            (Fulfilled (heuristicAnalysis env buffer))
            in map (update_scan env appId results (collect_threats results)) (apps w))"
proof -
  have "scan_POST env sreq w = scan_run env appId fileHash url w"
    using assms by (simp add: scan_POST_run)
  moreover have "fetch_buffer env url = Inr buffer" using assms by simp
  ultimately show ?thesis using scan_run_is_aggregate(2) [of env url buffer appId fileHash w]
    by simp
qed

section \<open>The claims\<close>

text \<open>
  C1. An archive with a denylisted entry name: the claim is that intake fails with the
  MaliciousContent error listing the names, creates no record and deletes the blob it has
  put to the content store. The route names \<open>DeleteObjectCommand\<close>, which its module
  does not import: for the archive with the entry \<open>payload.exe\<close> the route answers
  500 with the message of the ReferenceError, no record is created, and the blob stays in
  the store under the key of its hash.
\<close>

theorem malicious_upload_keeps_blob:
  "upload_POST env0 (upload_of payload_bytes) empty_world =
     (Response 500 (ErrorBody ''DeleteObjectCommand is not defined''),
      \<lparr>s3 = [(''apks/504b0506.zip'', payload_bytes)], apps = [], threat_logs = [],
       admin_notifications = [], installations = [], shortcuts = [],
       trace = [AppsSelectByHash ''504b0506'', S3PutObject ''apks/504b0506.zip'']\<rparr>)"
  by (simp add: upload_POST_def upload_of_def env0_def hex_payload [unfolded payload_bytes_def]
      single_def empty_world_def upload_store_def upload_key_def split_pop Let_def logged_def
      s3_put_def upload_inspect_def mal_payload upload_module_bindings_def upload_fail_def
      message_or_def payload_bytes_def clean_bytes_def)

text \<open>
  C2. The verdict of a scan is malicious exactly when at least one engine reports a
  positive finding. An engine whose promise is rejected, or whose function ends in its
  catch block, reports none. A verdict is always produced. For the route itself: a scan
  whose download succeeded answers 200 with the malicious body and its threats when one of
  its four engine results is positive, with the clean body otherwise, and writes just this
  verdict to the package; when every engine has failed the answer is clean.
\<close>

theorem aggregate_verdict:
  "scan_status (collect_threats (compile_results r0 r1 r2 r3)) =
     (if clamav_positive r0 \<or> virustotal_positive r1 \<or> yara_positive r2
         \<or> heuristic_positive r3
      then ''malicious'' else ''clean'')
   \<and> scan_status (collect_threats
        (compile_results (Rejected e0) (Rejected e1) (Rejected e2) (Rejected e3))) = ''clean''
   \<and> (clamav_scanFile env buffer = Inl m0
        \<longrightarrow> \<not> clamav_positive (Fulfilled (scanWithClamAV env buffer)))
   \<and> (virustotal_lookup env fileHash = Inl m1
        \<longrightarrow> \<not> virustotal_positive (Fulfilled (scanWithVirusTotal env fileHash)))
   \<and> (yara_scanBuffer env buffer = Inl m2
        \<longrightarrow> \<not> yara_positive (Fulfilled (scanWithYARA env buffer)))
   \<and> (jszip_loadAsync env buffer = Inl m3
        \<longrightarrow> \<not> heuristic_positive (Fulfilled (heuristicAnalysis env buffer)))
   \<and> (fetch_buffer env url = Inr buffer
        \<longrightarrow> (\<exists>ts rs w'. scan_run env appId fileHash url w
                            = (Response 200 (ScanMaliciousBody ts rs), w')
                \<and> scan_status ts = ''malicious'')
            \<or> (\<exists>rs w'. scan_run env appId fileHash url w
                            = (Response 200 (ScanCleanBody rs), w')))
   \<and> (scan_appId sreq = Some appId \<and> appId \<noteq> [] \<and> scan_fileHash sreq = Some fileHash
        \<and> fileHash \<noteq> [] \<and> scan_url sreq = Some url \<and> url \<noteq> []
        \<and> fetch_buffer env url = Inr buffer
        \<longrightarrow> (let results = compile_results
                      (Fulfilled (scanWithClamAV env buffer))
                      (Fulfilled (scanWithVirusTotal env fileHash))
                      (Fulfilled (scanWithYARA env buffer))
                      (Fulfilled (heuristicAnalysis env buffer));
                positive = (is_infected (scanWithClamAV env buffer)
                            \<or> positives (scanWithVirusTotal env fileHash) > 0
                            \<or> matches (scanWithYARA env buffer) \<noteq> []
                            \<or> suspicious (heuristicAnalysis env buffer))
            in fst (scan_POST env sreq w) =
                 (if positive
                  then Response 200 (ScanMaliciousBody (collect_threats results) results)
                  else Response 200 (ScanCleanBody results))
               \<and> (positive \<longrightarrow> collect_threats results \<noteq> [])
               \<and> apps (snd (scan_POST env sreq w)) =
                   map (\<lambda>r. if app_id r = appId
                            then r\<lparr>verified := \<not> positive,
                                   last_scan := Some (now_iso env),
                                   row_scan_results := Some results,
                                   threats := (if positive then Some (collect_threats results)
                                               else None),
                                   status := Some (if positive then ''malicious''
                                                   else ''clean'')\<rparr>
                            else r) (apps w)))
   \<and> (scan_appId sreq = Some appId \<and> appId \<noteq> [] \<and> scan_fileHash sreq = Some fileHash
        \<and> fileHash \<noteq> [] \<and> scan_url sreq = Some url \<and> url \<noteq> []
        \<and> fetch_buffer env url = Inr buffer
        \<and> clamav_scanFile env buffer = Inl m0 \<and> virustotal_lookup env fileHash = Inl m1
        \<and> yara_scanBuffer env buffer = Inl m2 \<and> jszip_loadAsync env buffer = Inl m3
        \<longrightarrow> (\<exists>rs. fst (scan_POST env sreq w) = Response 200 (ScanCleanBody rs))
            \<and> map status (filter (\<lambda>r. app_id r = appId) (apps (snd (scan_POST env sreq w))))
                = map (\<lambda>r. Some ''clean'') (filter (\<lambda>r. app_id r = appId) (apps w)))"
proof -
  have a: "scan_status (collect_threats (compile_results r0 r1 r2 r3)) =
     (if clamav_positive r0 \<or> virustotal_positive r1 \<or> yara_positive r2
         \<or> heuristic_positive r3
      then ''malicious'' else ''clean'')"
    using collect_threats_empty [of r0 r1 r2 r3] by (simp add: scan_status_def)
  have b: "scan_status (collect_threats
        (compile_results (Rejected e0) (Rejected e1) (Rejected e2) (Rejected e3))) = ''clean''"
    using collect_threats_empty [of "Rejected e0" "Rejected e1" "Rejected e2" "Rejected e3"]
    by (simp add: scan_status_def)
  have c: "clamav_scanFile env buffer = Inl m0
        \<longrightarrow> \<not> clamav_positive (Fulfilled (scanWithClamAV env buffer))"
    by (simp add: scanWithClamAV_def)
  have d: "virustotal_lookup env fileHash = Inl m1
        \<longrightarrow> \<not> virustotal_positive (Fulfilled (scanWithVirusTotal env fileHash))"
    by (simp add: scanWithVirusTotal_def)
  have e: "yara_scanBuffer env buffer = Inl m2
        \<longrightarrow> \<not> yara_positive (Fulfilled (scanWithYARA env buffer))"
    by (simp add: scanWithYARA_def)
  have f: "jszip_loadAsync env buffer = Inl m3
        \<longrightarrow> \<not> heuristic_positive (Fulfilled (heuristicAnalysis env buffer))"
    by (simp add: heuristicAnalysis_def)
  have g: "fetch_buffer env url = Inr buffer
        \<longrightarrow> (\<exists>ts rs w'. scan_run env appId fileHash url w
                            = (Response 200 (ScanMaliciousBody ts rs), w')
                \<and> scan_status ts = ''malicious'')
            \<or> (\<exists>rs w'. scan_run env appId fileHash url w
                            = (Response 200 (ScanCleanBody rs), w'))"
    using scan_run_verdict [of env url buffer appId fileHash w] by blast
  show ?thesis
    apply (intro conjI)
            apply (rule a)
           apply (rule b)
          apply (rule c)
         apply (rule d)
        apply (rule e)
       apply (rule f)
      apply (rule g)
     apply (rule impI, erule scan_route_verdict)
    apply (rule impI, erule scan_route_all_failed)
    done
qed

theorem aggregate_verdict_witness:
  "scan_status (collect_threats
      (compile_results (Fulfilled (ClamScanned True [''Win.Test.EICAR_HDB-1'']))
         (Rejected ''timeout'') (Rejected ''timeout'') (Rejected ''timeout''))) = ''malicious''
   \<and> clamav_scanFile offline_env clean_bytes = Inl ''connect ECONNREFUSED 127.0.0.1:3310''
   \<and> \<not> clamav_positive (Fulfilled (scanWithClamAV offline_env clean_bytes))
   \<and> virustotal_lookup offline_env ''504b0304'' = Inl ''request timed out''
   \<and> \<not> virustotal_positive (Fulfilled (scanWithVirusTotal offline_env ''504b0304''))
   \<and> yara_scanBuffer offline_env clean_bytes = Inl ''yara is not available''
   \<and> \<not> yara_positive (Fulfilled (scanWithYARA offline_env clean_bytes))
   \<and> jszip_loadAsync offline_env clean_bytes
        = Inl ''Corrupted zip: missing end of central directory''
   \<and> \<not> heuristic_positive (Fulfilled (heuristicAnalysis offline_env clean_bytes))
   \<and> fetch_buffer offline_env ''https://fireos-apps.s3.amazonaws.com/apks/504b0304.zip''
        = Inr clean_bytes
   \<and> (\<exists>rs. fst (scan_POST offline_env scan_of_clean uploaded_world)
               = Response 200 (ScanCleanBody rs))
   \<and> map status (apps (snd (scan_POST offline_env scan_of_clean uploaded_world)))
        = [Some ''clean'']
   \<and> is_infected (scanWithClamAV infected_env clean_bytes)
   \<and> (\<exists>ts rs. fst (scan_POST infected_env scan_of_clean uploaded_world)
                  = Response 200 (ScanMaliciousBody ts rs) \<and> ts \<noteq> [])
   \<and> map status (apps (snd (scan_POST infected_env scan_of_clean uploaded_world)))
        = [Some ''malicious'']
   \<and> map verified (apps (snd (scan_POST infected_env scan_of_clean uploaded_world)))
        = [False]"
proof -
  note off = aggregate_verdict [where ?r0.0 = "Fulfilled (ClamScanned True [''Win.Test.EICAR_HDB-1''])"
      and ?r1.0 = "Rejected ''timeout''" and ?r2.0 = "Rejected ''timeout''"
      and ?r3.0 = "Rejected ''timeout''"
      and env = offline_env and buffer = clean_bytes and fileHash = "''504b0304''"
      and ?m0.0 = "''connect ECONNREFUSED 127.0.0.1:3310''" and ?m1.0 = "''request timed out''"
      and ?m2.0 = "''yara is not available''"
      and ?m3.0 = "''Corrupted zip: missing end of central directory''"
      and url = "''https://fireos-apps.s3.amazonaws.com/apks/504b0304.zip''"
      and appId = "''app-1''" and sreq = scan_of_clean and w = uploaded_world]
  note inf = aggregate_verdict [where env = infected_env and buffer = clean_bytes
      and fileHash = "''504b0304''"
      and url = "''https://fireos-apps.s3.amazonaws.com/apks/504b0304.zip''"
      and appId = "''app-1''" and sreq = scan_of_clean and w = uploaded_world]
  have p1: "scan_status (collect_threats
      (compile_results (Fulfilled (ClamScanned True [''Win.Test.EICAR_HDB-1'']))
         (Rejected ''timeout'') (Rejected ''timeout'') (Rejected ''timeout''))) = ''malicious''"
    using off [THEN conjunct1] by simp
  have p2: "\<not> clamav_positive (Fulfilled (scanWithClamAV offline_env clean_bytes))"
    "\<not> virustotal_positive (Fulfilled (scanWithVirusTotal offline_env ''504b0304''))"
    "\<not> yara_positive (Fulfilled (scanWithYARA offline_env clean_bytes))"
    "\<not> heuristic_positive (Fulfilled (heuristicAnalysis offline_env clean_bytes))"
    using off offline_fails by blast+
  have p3: "(\<exists>rs. fst (scan_POST offline_env scan_of_clean uploaded_world)
               = Response 200 (ScanCleanBody rs))
     \<and> map status (filter (\<lambda>r. app_id r = ''app-1'')
          (apps (snd (scan_POST offline_env scan_of_clean uploaded_world))))
        = map (\<lambda>r. Some ''clean'') (filter (\<lambda>r. app_id r = ''app-1'') (apps uploaded_world))"
    using off [THEN conjunct2, THEN conjunct2, THEN conjunct2, THEN conjunct2, THEN conjunct2,
        THEN conjunct2, THEN conjunct2, THEN conjunct2]
      scan_of_clean_fields fetch_clean(3) offline_fails
    by simp
  note v = inf [THEN conjunct2, THEN conjunct2, THEN conjunct2, THEN conjunct2, THEN conjunct2,
        THEN conjunct2, THEN conjunct2, THEN conjunct1, unfolded Let_def]
  from v scan_of_clean_fields fetch_clean(2) infected_positive
  have q: "fst (scan_POST infected_env scan_of_clean uploaded_world) =
      Response 200 (ScanMaliciousBody
        (collect_threats (compile_results
            (Fulfilled (scanWithClamAV infected_env clean_bytes))
            (Fulfilled (scanWithVirusTotal infected_env ''504b0304''))
            (Fulfilled (scanWithYARA infected_env clean_bytes))
            (Fulfilled (heuristicAnalysis infected_env clean_bytes))))
        (compile_results
            (Fulfilled (scanWithClamAV infected_env clean_bytes))
            (Fulfilled (scanWithVirusTotal infected_env ''504b0304''))
            (Fulfilled (scanWithYARA infected_env clean_bytes))
            (Fulfilled (heuristicAnalysis infected_env clean_bytes))))"
    and q2: "collect_threats (compile_results
            (Fulfilled (scanWithClamAV infected_env clean_bytes))
            (Fulfilled (scanWithVirusTotal infected_env ''504b0304''))
            (Fulfilled (scanWithYARA infected_env clean_bytes))
            (Fulfilled (heuristicAnalysis infected_env clean_bytes))) \<noteq> []"
    and q3: "map status (apps (snd (scan_POST infected_env scan_of_clean uploaded_world)))
        = [Some ''malicious'']"
    and q4: "map verified (apps (snd (scan_POST infected_env scan_of_clean uploaded_world)))
        = [False]"
    by (simp_all add: uploaded_apps)
  have p4: "\<exists>ts rs. fst (scan_POST infected_env scan_of_clean uploaded_world)
                  = Response 200 (ScanMaliciousBody ts rs) \<and> ts \<noteq> []"
    using q q2 by blast
  have p5: "map status (apps (snd (scan_POST offline_env scan_of_clean uploaded_world)))
        = [Some ''clean'']"
  proof -
    have "apps (snd (scan_POST offline_env scan_of_clean uploaded_world)) =
            map (update_scan offline_env ''app-1''
                   (compile_results
                      (Fulfilled (scanWithClamAV offline_env clean_bytes))
                      (Fulfilled (scanWithVirusTotal offline_env ''504b0304''))
                      (Fulfilled (scanWithYARA offline_env clean_bytes))
                      (Fulfilled (heuristicAnalysis offline_env clean_bytes)))
                   (collect_threats (compile_results
                      (Fulfilled (scanWithClamAV offline_env clean_bytes))
                      (Fulfilled (scanWithVirusTotal offline_env ''504b0304''))
                      (Fulfilled (scanWithYARA offline_env clean_bytes))
                      (Fulfilled (heuristicAnalysis offline_env clean_bytes)))))
              (apps uploaded_world)"
      using scan_run_is_aggregate(2) [OF fetch_clean(3), of "''app-1''" "''504b0304''"
          uploaded_world]
        scan_POST_run [of scan_of_clean "''app-1''" "''504b0304''"
          "''https://fireos-apps.s3.amazonaws.com/apks/504b0304.zip''" offline_env uploaded_world]
        scan_of_clean_fields
      by (simp add: Let_def)
    then have "filter (\<lambda>r. app_id r = ''app-1'')
          (apps (snd (scan_POST offline_env scan_of_clean uploaded_world)))
        = apps (snd (scan_POST offline_env scan_of_clean uploaded_world))"
      by (simp add: uploaded_apps update_scan_def)
    with p3 show ?thesis by (simp add: uploaded_apps)
  qed
  from p1 p2 p3 p4 p5 q3 q4 offline_fails fetch_clean(3) infected_positive
  show ?thesis by simp
qed

text \<open>
  C3. After an upload of the bytes \<open>B\<close> has succeeded in a store whose content hashes
  are unique, a second upload of \<open>B\<close> is answered 409 "App already exists". The route
  has looked the hash up and written nothing, so exactly one package with this hash is
  stored afterwards and the hashes stay unique; in the first upload too the lookup of the
  hash precedes the first write to the object store.
\<close>

theorem duplicate_upload_rejected:
  assumes "hash_unique w"
    and "form_apk req1 = Some f1"
    and "upload_POST env1 req1 w = (Response 200 b, w1)"
    and "form_apk req2 = Some f2" and "file_bytes f2 = file_bytes f1"
    and "form_manifest req2 = Inr (Some m2)"
    and "sha256_hex env2 (file_bytes f1) = sha256_hex env1 (file_bytes f1)"
  shows "upload_POST env2 req2 w1 =
           (Response 409 (ErrorBody ''App already exists''),
            logged (AppsSelectByHash (sha256_hex env1 (file_bytes f1))) w1)
       \<and> length (filter (\<lambda>r. hash r = sha256_hex env1 (file_bytes f1))
                  (apps (snd (upload_POST env2 req2 w1)))) = 1
       \<and> hash_unique (snd (upload_POST env2 req2 w1))
       \<and> (\<exists>es. trace w1 = trace w @ AppsSelectByHash (sha256_hex env1 (file_bytes f1))
                                  # S3PutObject (upload_key (sha256_hex env1 (file_bytes f1)) f1)
                                  # es)"
proof -
  let ?h = "sha256_hex env1 (file_bytes f1)"
  from upload_POST_200 [OF assms(3)] assms(2) obtain m i k icon urls where
    n: "single (filter (\<lambda>r. hash r = ?h) (apps w)) = None" and
    a: "apps w1 = apps w @ [new_app_row env1 f1 m ?h k icon urls i]"
    by auto
  have e: "filter (\<lambda>r. hash r = ?h) (apps w) = []"
    using single_None_distinct [of hash "apps w" ?h] assms(1) n by (simp add: hash_unique_def)
  have f: "filter (\<lambda>r. hash r = ?h) (apps w1) = [new_app_row env1 f1 m ?h k icon urls i]"
    using a e by simp
  have r: "upload_POST env2 req2 w1 =
           (Response 409 (ErrorBody ''App already exists''), logged (AppsSelectByHash ?h) w1)"
    using assms(4-7) f by (simp add: upload_POST_def Let_def single_def)
  have u: "hash_unique w1"
    using assms(1) a e by (auto simp: hash_unique_def filter_empty_conv)
  have t: "\<exists>es. trace w1 = trace w @ AppsSelectByHash ?h # S3PutObject (upload_key ?h f1) # es"
  proof -
    from assms(3) obtain m' where mf: "form_manifest req1 = Inr (Some m')"
      by (auto simp: upload_POST_def upload_fail_def split: sum.splits option.splits)
    with assms(2,3) n have
      "upload_store env1 f1 m' ?h (logged (AppsSelectByHash ?h) w) = (Response 200 b, w1)"
      by (simp add: upload_POST_def Let_def)
    from upload_store_trace [OF this] show ?thesis by simp
  qed
  from r f u t show ?thesis by (simp add: hash_unique_def)
qed

theorem duplicate_upload_rejected_witness:
  "hash_unique empty_world
   \<and> upload_POST env0 (upload_of clean_bytes) empty_world =
       (Response 200
          (UploadSuccessBody ''app-1'' ''Notes'' ''1.0.0'' None ''A notepad'' ''uploaded''),
        uploaded_world)
   \<and> upload_POST env0 (upload_of clean_bytes) uploaded_world =
       (Response 409 (ErrorBody ''App already exists''),
        logged (AppsSelectByHash ''504b0304'') uploaded_world)
   \<and> length (filter (\<lambda>r. hash r = ''504b0304'')
        (apps (snd (upload_POST env0 (upload_of clean_bytes) uploaded_world)))) = 1"
proof -
  let ?fl = "\<lparr>file_name = ''app.zip'', file_type = ''application/zip'', file_bytes = clean_bytes\<rparr>"
  have u: "hash_unique empty_world" by (simp add: hash_unique_def empty_world_def)
  have a: "form_apk (upload_of clean_bytes) = Some ?fl"
    "form_manifest (upload_of clean_bytes) = Inr (Some demo_manifest)"
    by (simp_all add: upload_of_def)
  have r: "upload_POST env0 (upload_of clean_bytes) empty_world =
       (Response 200
          (UploadSuccessBody ''app-1'' ''Notes'' ''1.0.0'' None ''A notepad'' ''uploaded''),
        uploaded_world)"
    by (simp add: uploaded_run uploaded_world_eq)
  have h: "sha256_hex env0 (file_bytes ?fl) = ''504b0304''" by (simp add: env0_def hex_clean)
  note t = duplicate_upload_rejected [OF u a(1) r a(1) refl a(2) refl]
  from t h have c1: "upload_POST env0 (upload_of clean_bytes) uploaded_world =
       (Response 409 (ErrorBody ''App already exists''),
        logged (AppsSelectByHash ''504b0304'') uploaded_world)"
    by simp
  from t [THEN conjunct2, THEN conjunct1] h
  have c2: "length (filter (\<lambda>r. hash r = ''504b0304'')
        (apps (snd (upload_POST env0 (upload_of clean_bytes) uploaded_world)))) = 1"
    by simp
  show ?thesis by (intro conjI) (rule u, rule r, rule c1, rule c2)
qed




text \<open>
  C5, as the claim states it: an archive beyond a ceiling on the entry count or on the total
  uncompressed size fails with ArchiveTooLarge. The archive whose headers declare more than
  one tebibyte of uncompressed data is taken in: the answer is 200 and its record is stored.
\<close>

theorem archive_bomb_accepted_counterexample:
  "jszip_loadAsync env0 bomb_bytes = Inr bomb_zip
   \<and> sum_list (map uncompressed_size bomb_zip) = 1099511627778
   \<and> fst (upload_POST env0 (upload_of bomb_bytes) empty_world) =
       Response 200
         (UploadSuccessBody ''app-1'' ''Notes'' ''1.0.0'' None ''A notepad'' ''uploaded'')
   \<and> map hash (apps (snd (upload_POST env0 (upload_of bomb_bytes) empty_world)))
       = [''504b0708'']"
proof -
  have e: "throws env0 = (\<lambda>e. None)"
      "sha256_hex env0 bomb_bytes = ''504b0708''" "apps_insert_result env0 = Inr ''app-1''"
    by (simp_all add: env0_def hex_bomb)
  have s: "sum_list (map uncompressed_size bomb_zip) = 1099511627778"
    by (simp add: bomb_zip_def)
  have u: "upload_POST env0 (upload_of bomb_bytes) empty_world =
     (Response 200
        (UploadSuccessBody ''app-1'' ''Notes'' ''1.0.0'' None ''A notepad'' ''uploaded''),
      \<lparr>s3 = [(''apks/504b0708.zip'', bomb_bytes)],
       apps = [new_app_row env0
                 \<lparr>file_name = ''app.zip'', file_type = ''application/zip'',
                  file_bytes = bomb_bytes\<rparr>
                 demo_manifest ''504b0708'' ''apks/504b0708.zip'' None [] ''app-1''],
       threat_logs = [], admin_notifications = [], installations = [], shortcuts = [],
       trace = [AppsSelectByHash ''504b0708'', S3PutObject ''apks/504b0708.zip'',
                AppsInsert ''app-1'', FetchScanWorker ''app-1'']\<rparr>)"
    by (simp add: upload_POST_def upload_of_def e env0_bomb single_def empty_world_def
      upload_store_def upload_key_def split_pop Let_def logged_def s3_put_def
      upload_inspect_def mal_bomb upload_accept_def store_icon_def icon_bomb shots_bomb
      upload_insert_def)
      (simp add: new_app_row_def demo_manifest_def)
  show ?thesis using env0_bomb s u by simp
qed

text \<open>
  C5, amended. The enumeration of the entries bounds neither their number nor their total
  uncompressed size, and intake has no ArchiveTooLarge outcome: an archive of any entry
  count and any declared sizes is accepted with 200 when its hash is new, none of its names
  is on the denylist, the icon and the first five screenshots decompress, and the calls to
  the object store, the database and the scan worker succeed.
\<close>

theorem no_archive_size_limit:
  assumes "form_apk req = Some fl" and "form_manifest req = Inr (Some m)"
    and "single (filter (\<lambda>r. hash r = sha256_hex env (file_bytes fl)) (apps w)) = None"
    and "\<forall>e. throws env e = None"
    and "apps_insert_result env = Inr i"
    and "jszip_loadAsync env (file_bytes fl) = Inr z"
    and "length z = entry_count"
    and "sum_list (map uncompressed_size z) = total_uncompressed_size"
    and "maliciousFiles z = []"
    and "\<forall>f. icon_file z = Some f \<longrightarrow> (\<exists>b. async_nodebuffer f = Inr b)"
    and "\<forall>n \<in> set (take 5 (screenshotFiles z)).
           \<forall>f. zip_file z n = Some f \<longrightarrow> (\<exists>b. async_nodebuffer f = Inr b)"
  shows "\<exists>icon. fst (upload_POST env req w) =
           Response 200 (UploadSuccessBody i (m_name m) (m_version m) icon (m_description m)
                           ''uploaded'')"
proof -
  let ?h = "sha256_hex env (file_bytes fl)"
  let ?k = "upload_key ?h fl"
  let ?w1 = "logged (S3PutObject ?k)
               ((logged (AppsSelectByHash ?h) w)
                  \<lparr>s3 := s3_put ?k (file_bytes fl) (s3 (logged (AppsSelectByHash ?h) w))\<rparr>)"
  have t: "take (min (length (screenshotFiles z)) 5) (screenshotFiles z)
             = take 5 (screenshotFiles z)"
    by (simp add: min_def)
  obtain icon w2 where s1: "store_icon env ?h z ?w1 = (Inr icon, w2)"
    using store_icon_ok [OF assms(4) assms(10)] by blast
  obtain urls w3 where s2: "store_screenshots env ?h z (take 5 (screenshotFiles z)) 0 [] w2
                              = (Inr urls, w3)"
    using store_screenshots_ok [OF assms(4) assms(11)] by blast
  have "upload_POST env req w = upload_insert env fl m ?h ?k icon urls w3"
    using assms(1-4,6,9) s1 s2
    by (simp add: upload_POST_def Let_def upload_store_def upload_inspect_def upload_accept_def t)
  then show ?thesis
    using upload_insert_ok [OF assms(4,5)] by auto
qed

theorem no_archive_size_limit_witness:
  "form_apk (upload_of bomb_bytes)
     = Some \<lparr>file_name = ''app.zip'', file_type = ''application/zip'', file_bytes = bomb_bytes\<rparr>
   \<and> form_manifest (upload_of bomb_bytes) = Inr (Some demo_manifest)
   \<and> single (filter (\<lambda>r. hash r = sha256_hex env0 bomb_bytes) (apps empty_world)) = None
   \<and> (\<forall>e. throws env0 e = None)
   \<and> apps_insert_result env0 = Inr ''app-1''
   \<and> jszip_loadAsync env0 bomb_bytes = Inr bomb_zip
   \<and> length bomb_zip = 2
   \<and> sum_list (map uncompressed_size bomb_zip) = 1099511627778
   \<and> maliciousFiles bomb_zip = []
   \<and> icon_file bomb_zip = None
   \<and> take 5 (screenshotFiles bomb_zip) = []
   \<and> (\<exists>icon. fst (upload_POST env0 (upload_of bomb_bytes) empty_world) =
         Response 200 (UploadSuccessBody ''app-1'' ''Notes'' ''1.0.0'' icon ''A notepad''
                         ''uploaded''))"
proof -
  let ?fl = "\<lparr>file_name = ''app.zip'', file_type = ''application/zip'', file_bytes = bomb_bytes\<rparr>"
  have a: "form_apk (upload_of bomb_bytes) = Some ?fl"
    "form_manifest (upload_of bomb_bytes) = Inr (Some demo_manifest)"
    by (simp_all add: upload_of_def)
  have b: "single (filter (\<lambda>r. hash r = sha256_hex env0 (file_bytes ?fl)) (apps empty_world))
             = None"
    by (simp add: empty_world_def single_def)
  have c: "\<forall>e. throws env0 e = None" "apps_insert_result env0 = Inr ''app-1''"
    by (simp_all add: env0_def)
  have d: "jszip_loadAsync env0 (file_bytes ?fl) = Inr bomb_zip" using env0_bomb by simp
  have e: "length bomb_zip = 2" "sum_list (map uncompressed_size bomb_zip) = 1099511627778"
    by (simp_all add: bomb_zip_def)
  have f: "\<forall>f. icon_file bomb_zip = Some f \<longrightarrow> (\<exists>b. async_nodebuffer f = Inr b)"
    by (simp add: icon_bomb)
  have g: "\<forall>n \<in> set (take 5 (screenshotFiles bomb_zip)).
           \<forall>f. zip_file bomb_zip n = Some f \<longrightarrow> (\<exists>b. async_nodebuffer f = Inr b)"
    by (simp add: shots_bomb)
  from no_archive_size_limit [OF a b c d e mal_bomb f g]
  show ?thesis using a b c d e mal_bomb icon_bomb shots_bomb
    by (simp add: demo_manifest_def)
qed

text \<open>
  C6. Intake creates every record with \<open>verified = false\<close>, and every row the upload
  route adds is unverified. The update of the scan route sets \<open>verified\<close> to true
  exactly when the status computed from the threats of its engines is \<open>clean\<close>, that
  is when there is no threat, writes this status with it, and leaves the rows of other
  packages alone; the install route changes neither flag nor status. So the invariant that
  \<open>verified\<close> implies the status \<open>clean\<close> holds in the empty store and is kept by
  the three routes.
\<close>

theorem verified_only_when_clean:
  "verified (new_app_row env fl m h k icon urls i) = False
   \<and> (app_id r = appId \<longrightarrow>
        verified (update_scan env appId results ts r)
          = (status (update_scan env appId results ts r) = Some ''clean''))
   \<and> verified_implies_clean empty_world
   \<and> (verified_implies_clean w \<longrightarrow>
        verified_implies_clean (snd (upload_POST env ureq w))
        \<and> verified_implies_clean (snd (scan_POST env sreq w))
        \<and> verified_implies_clean (snd (install_POST env ireq w)))
   \<and> (app_id r = appId \<longrightarrow>
        verified (update_scan env appId results ts r) = (scan_status ts = ''clean'')
        \<and> status (update_scan env appId results ts r) = Some (scan_status ts))
   \<and> (app_id r \<noteq> appId \<longrightarrow> update_scan env appId results ts r = r)
   \<and> (scan_status ts = ''clean'') = (ts = [])
   \<and> (scan_appId sreq = Some appId \<and> appId \<noteq> [] \<and> scan_fileHash sreq = Some fileHash
        \<and> fileHash \<noteq> [] \<and> scan_url sreq = Some url \<and> url \<noteq> []
        \<and> fetch_buffer env url = Inr buffer
        \<longrightarrow> apps (snd (scan_POST env sreq w)) =
              (let engine_results = compile_results
                            (Fulfilled (scanWithClamAV env buffer))
                            (Fulfilled (scanWithVirusTotal env fileHash))
                            (Fulfilled (scanWithYARA env buffer))
                            (Fulfilled (heuristicAnalysis env buffer))
               in map (update_scan env appId engine_results (collect_threats engine_results))
                    (apps w)))
   \<and> (\<forall>x \<in> set (apps (snd (upload_POST env ureq w))). x \<in> set (apps w) \<or> \<not> verified x)
   \<and> map verified (apps (snd (install_POST env ireq w))) = map verified (apps w)
   \<and> map status (apps (snd (install_POST env ireq w))) = map status (apps w)"
proof -
  have a: "verified (new_app_row env fl m h k icon urls i) = False" by simp
  have b: "app_id r = appId \<longrightarrow>
        verified (update_scan env appId results ts r)
          = (status (update_scan env appId results ts r) = Some ''clean'')"
    by (simp add: update_scan_def)
  have c: "verified_implies_clean empty_world"
    by (simp add: verified_implies_clean_def empty_world_def)
  have d: "verified_implies_clean w \<longrightarrow>
        verified_implies_clean (snd (upload_POST env ureq w))
        \<and> verified_implies_clean (snd (scan_POST env sreq w))
        \<and> verified_implies_clean (snd (install_POST env ireq w))"
    using inv_upload inv_scan inv_install by simp
  have e: "app_id r = appId \<longrightarrow>
        verified (update_scan env appId results ts r) = (scan_status ts = ''clean'')
        \<and> status (update_scan env appId results ts r) = Some (scan_status ts)"
    by (simp add: update_scan_def)
  have f: "app_id r \<noteq> appId \<longrightarrow> update_scan env appId results ts r = r"
    by (simp add: update_scan_def)
  have g: "(scan_status ts = ''clean'') = (ts = [])"
    by (simp add: scan_status_def)
  show ?thesis
    apply (intro conjI)
              apply (rule a)
             apply (rule b)
            apply (rule c)
           apply (rule d)
          apply (rule e)
         apply (rule f)
        apply (rule g)
       apply (rule impI, erule scan_route_rows)
      apply (rule upload_rows_unverified)
     apply (rule install_rows_verified)
    apply (rule install_rows)
    done
qed

theorem verified_only_when_clean_witness:
  "map verified (apps uploaded_world) = [False]
   \<and> map verified (apps (snd (scan_POST env0 scan_of_clean uploaded_world))) = [True]
   \<and> map status (apps (snd (scan_POST env0 scan_of_clean uploaded_world))) = [Some ''clean'']
   \<and> map verified (apps (snd (scan_POST infected_env scan_of_clean uploaded_world))) = [False]
   \<and> map status (apps (snd (scan_POST infected_env scan_of_clean uploaded_world)))
        = [Some ''malicious'']"
proof -
  have i: "verified_implies_clean uploaded_world"
    by (simp add: verified_implies_clean_def uploaded_world_eq clean_row_def)
  have u: "map verified (apps uploaded_world) = [False]"
    by (simp add: uploaded_world_eq clean_row_def)
  obtain r where a: "apps (snd (scan_POST env0 scan_of_clean uploaded_world)) = [r]"
    and v: "verified r"
    by (simp add: scan_clean_run) (simp add: clean_row_def update_scan_def scan_status_def)
  note t = verified_only_when_clean [where env = env0 and w = uploaded_world
      and ureq = "upload_of payload_bytes" and sreq = scan_of_clean
      and ireq = install_of_clean]
  from t [THEN conjunct2, THEN conjunct2, THEN conjunct2, THEN conjunct1] i
  have "verified_implies_clean (snd (scan_POST env0 scan_of_clean uploaded_world))"
    by simp
  with a v have s: "status r = Some ''clean''"
    by (simp add: verified_implies_clean_def)
  let ?R = "compile_results
              (Fulfilled (scanWithClamAV infected_env clean_bytes))
              (Fulfilled (scanWithVirusTotal infected_env ''504b0304''))
              (Fulfilled (scanWithYARA infected_env clean_bytes))
              (Fulfilled (heuristicAnalysis infected_env clean_bytes))"
  note ti = verified_only_when_clean [where env = infected_env and w = uploaded_world
      and sreq = scan_of_clean and appId = "''app-1''" and fileHash = "''504b0304''"
      and url = "''https://fireos-apps.s3.amazonaws.com/apks/504b0304.zip''"
      and buffer = clean_bytes and r = clean_row and results = ?R
      and ts = "collect_threats ?R"]
  have m: "scan_status (collect_threats ?R) = ''malicious''"
    using engines_status [of infected_env clean_bytes "''504b0304''"] infected_positive by simp
  from ti [THEN conjunct2, THEN conjunct2, THEN conjunct2, THEN conjunct2, THEN conjunct2,
      THEN conjunct2, THEN conjunct2, THEN conjunct1] scan_of_clean_fields fetch_clean(2)
  have ap: "apps (snd (scan_POST infected_env scan_of_clean uploaded_world)) =
     [update_scan infected_env ''app-1'' ?R (collect_threats ?R) clean_row]"
    by (simp add: Let_def uploaded_apps)
  from ti [THEN conjunct2, THEN conjunct2, THEN conjunct2, THEN conjunct2, THEN conjunct1] m
  have vs: "verified (update_scan infected_env ''app-1'' ?R (collect_threats ?R) clean_row) = False"
    "status (update_scan infected_env ''app-1'' ?R (collect_threats ?R) clean_row)
       = Some ''malicious''"
    by (simp_all add: uploaded_apps)
  from u a v s ap vs show ?thesis by simp
qed

text \<open>
  C7. \<open>calculateEntropy\<close> depends on the bytes of the buffer only and computes the
  Shannon entropy over the 256 byte values (in real arithmetic); a buffer of zeros of any
  length has entropy 0; the analyzer adds the entropy indicator exactly when the value is
  above 7.5, and then a completed analysis is suspicious and lists it.
\<close>

theorem entropy_shannon_threshold:
  "calculateEntropy buffer = shannon_entropy buffer
   \<and> calculateEntropy (replicate n 0) = 0
   \<and> (entropy_indicators env buffer \<noteq> []) = (calculateEntropy buffer > 7.5)
   \<and> (calculateEntropy buffer > 7.5 \<and> heuristic_error (heuristicAnalysis env buffer) = None
        \<longrightarrow> suspicious (heuristicAnalysis env buffer)
            \<and> (''High entropy detected: '' @ toFixed2 env (calculateEntropy buffer))
                 \<in> set (reasons (heuristicAnalysis env buffer)))"
proof -
  have "calculateEntropy buffer > 7.5
        \<Longrightarrow> heuristic_error (heuristicAnalysis env buffer) = None
        \<Longrightarrow> suspicious (heuristicAnalysis env buffer)
            \<and> (''High entropy detected: '' @ toFixed2 env (calculateEntropy buffer))
                 \<in> set (reasons (heuristicAnalysis env buffer))"
    by (auto simp: heuristicAnalysis_def entropy_indicators_def Let_def split: sum.splits)
  then show ?thesis
    by (simp add: calculateEntropy_shannon [symmetric] entropy_zero_buffer
        entropy_indicators_def Let_def)
qed

theorem entropy_shannon_threshold_witness:
  "calculateEntropy all_bytes > 7.5
   \<and> heuristic_error (heuristicAnalysis packed_env all_bytes) = None
   \<and> suspicious (heuristicAnalysis packed_env all_bytes)
   \<and> reasons (heuristicAnalysis packed_env all_bytes) = [''High entropy detected: 8.00'']"
proof -
  have l: "jszip_loadAsync packed_env all_bytes = Inr clean_zip"
    "toFixed2 packed_env = (\<lambda>x. ''8.00'')"
    by (simp_all add: packed_env_def env0_def)
  have h: "heuristic_error (heuristicAnalysis packed_env all_bytes) = None"
    by (simp add: heuristicAnalysis_def l manifest_clean cert_clean Let_def)
  have r: "reasons (heuristicAnalysis packed_env all_bytes)
             = entropy_indicators packed_env all_bytes"
    by (simp add: heuristicAnalysis_def l manifest_clean cert_clean names_clean Let_def)
  have g: "calculateEntropy all_bytes > 7.5" by (simp add: entropy_all_bytes)
  from entropy_shannon_threshold [of all_bytes 0 packed_env] g h r show ?thesis
    by (simp add: entropy_indicators_def l entropy_all_bytes)
qed



text \<open>
  C9, as the claim states it: every pattern of the denylist is matched without regard to
  letter case. The entry \<open>__macosx/._app\<close> matches the denylist so read and is not
  collected; of the two entries of the archive only \<open>Setup.EXE\<close> is.
\<close>

theorem junk_artifact_case_counterexample:
  "denylist_match_ci ''__macosx/._app'' \<and> ''__macosx/._app'' \<in> set (zip_keys junk_zip)
   \<and> maliciousFiles junk_zip = [''Setup.EXE'']"
  by (simp add: denylist_match_ci_def junk_zip_def maliciousFiles_def zip_keys_def
      maliciousPatterns_def str_tests)

text \<open>
  C9, amended. The check collects, in the order of enumeration, every entry name that
  ends with one of the suffixes \<open>.exe .bat .sh .php .py .js\<close> in any letter case, or
  that contains \<open>__MACOSX\<close> or \<open>.DS_Store\<close> in exactly this spelling; no name
  that matches is left out.
\<close>

theorem malicious_names_collected:
  "maliciousFiles zipContents = filter maliciousPatterns (map entry_name zipContents)
   \<and> (\<forall>n \<in> set (map entry_name zipContents).
        n \<in> set (maliciousFiles zipContents) \<longleftrightarrow>
          (\<exists>e \<in> set [''exe'', ''bat'', ''sh'', ''php'', ''py'', ''js''].
               suffix (''.'' @ e) (toLowerCase n))
           \<or> sublist ''__MACOSX'' n \<or> sublist ''.DS_Store'' n)"
  using toLowerCase_exts
  by (auto simp: maliciousFiles_def zip_keys_def maliciousPatterns_def ends_with_ext_i_def
      str_includes_def list_ex_iff toLowerCase_def)

theorem malicious_names_collected_witness:
  "''Setup.EXE'' \<in> set (map entry_name junk_zip)
   \<and> suffix ''.exe'' (toLowerCase ''Setup.EXE'')
   \<and> ''Setup.EXE'' \<in> set (maliciousFiles junk_zip)
   \<and> ''__macosx/._app'' \<in> set (map entry_name junk_zip)
   \<and> ''__macosx/._app'' \<notin> set (maliciousFiles junk_zip)"
proof -
  have m: "''Setup.EXE'' \<in> set (map entry_name junk_zip)"
    "''__macosx/._app'' \<in> set (map entry_name junk_zip)"
    by (simp_all add: junk_zip_def)
  have s: "suffix ''.exe'' (toLowerCase ''Setup.EXE'')"
    "\<not> (\<exists>e \<in> set [''exe'', ''bat'', ''sh'', ''php'', ''py'', ''js''].
               suffix (''.'' @ e) (toLowerCase ''__macosx/._app''))"
    "\<not> sublist ''__MACOSX'' ''__macosx/._app''" "\<not> sublist ''.DS_Store'' ''__macosx/._app''"
    by (simp_all add: str_tests)
  from malicious_names_collected [of junk_zip] m s show ?thesis by auto
qed

text \<open>
  C10. For a request that names a package of the store whose \<open>verified\<close> flag is not
  true, the install route answers 403 "App not verified"; it has looked the package up and
  done nothing else: no download, no extraction, no write. A request that the route
  answers with 200 names a package whose \<open>verified\<close> flag is true.
\<close>

theorem install_refuses_unverified:
  "(install_appId req = Some appId \<and> appId \<noteq> [] \<and> install_userId req = Some userId
      \<and> userId \<noteq> [] \<and> single (filter (\<lambda>r. app_id r = appId) (apps w)) = Some app
      \<and> \<not> verified app \<longrightarrow>
      install_POST env req w =
        (Response 403 (ErrorBody ''App not verified. Please wait for scanning to complete.''),
         logged (AppsSelectById appId) w))
   \<and> (install_POST env req w = (Response 200 b, w') \<longrightarrow>
        (\<exists>a app. install_appId req = Some a
           \<and> single (filter (\<lambda>r. app_id r = a) (apps w)) = Some app \<and> verified app))"
proof -
  have "install_appId req = Some appId \<and> appId \<noteq> [] \<and> install_userId req = Some userId
      \<and> userId \<noteq> [] \<and> single (filter (\<lambda>r. app_id r = appId) (apps w)) = Some app
      \<and> \<not> verified app \<longrightarrow>
      install_POST env req w =
        (Response 403 (ErrorBody ''App not verified. Please wait for scanning to complete.''),
         logged (AppsSelectById appId) w)"
    by (simp add: install_POST_def falsy_def Let_def)
  moreover have "install_POST env req w = (Response 200 b, w') \<longrightarrow>
        (\<exists>a app. install_appId req = Some a
           \<and> single (filter (\<lambda>r. app_id r = a) (apps w)) = Some app \<and> verified app)"
    using install_success_verified [of env req w b w'] by blast
  ultimately show ?thesis by (rule conjI)
qed

theorem install_refuses_unverified_witness:
  "install_appId install_of_clean = Some ''app-1'' \<and> ''app-1'' \<noteq> []
   \<and> install_userId install_of_clean = Some ''user-7'' \<and> ''user-7'' \<noteq> []
   \<and> single (filter (\<lambda>r. app_id r = ''app-1'') (apps uploaded_world)) = Some clean_row
   \<and> \<not> verified clean_row
   \<and> install_POST env0 install_of_clean uploaded_world =
        (Response 403 (ErrorBody ''App not verified. Please wait for scanning to complete.''),
         logged (AppsSelectById ''app-1'') uploaded_world)
   \<and> (\<exists>b w' app. install_POST env0 install_of_clean scanned_world = (Response 200 b, w')
         \<and> single (filter (\<lambda>r. app_id r = ''app-1'') (apps scanned_world)) = Some app
         \<and> verified app)"
proof -
  have a: "install_appId install_of_clean = Some ''app-1''"
    "install_userId install_of_clean = Some ''user-7''"
    by (simp_all add: install_of_clean_def)
  have b: "single (filter (\<lambda>r. app_id r = ''app-1'') (apps uploaded_world)) = Some clean_row"
    by (simp add: uploaded_world_eq single_def clean_row_def)
  have c: "\<not> verified clean_row" by (simp add: clean_row_def)
  have d: "install_POST env0 install_of_clean uploaded_world =
        (Response 403 (ErrorBody ''App not verified. Please wait for scanning to complete.''),
         logged (AppsSelectById ''app-1'') uploaded_world)"
    using install_refuses_unverified [of install_of_clean "''app-1''" "''user-7''"
        uploaded_world clean_row env0] a b c
    by simp
  obtain bd w' where r: "install_POST env0 install_of_clean scanned_world = (Response 200 bd, w')"
    using install_clean_run by blast
  from install_refuses_unverified [where req = install_of_clean and w = scanned_world
      and env = env0 and b = bd and w' = w', THEN conjunct2, THEN mp, OF r] a
  obtain app where "single (filter (\<lambda>r. app_id r = ''app-1'') (apps scanned_world)) = Some app"
    "verified app"
    by auto
  with r have e: "\<exists>b w' app. install_POST env0 install_of_clean scanned_world = (Response 200 b, w')
         \<and> single (filter (\<lambda>r. app_id r = ''app-1'') (apps scanned_world)) = Some app
         \<and> verified app"
    by blast
  from a b c d e show ?thesis by simp
qed

end
